theory Spec2Isabelle
  imports Complex_Main "HOL-Library.Word"
begin

unbundle bit_operations_syntax

section \<open>Daemon modes (internal/build/imgsrc/docker.go, lines 91-136)\<close>

text \<open>
  \<^verbatim>\<open>type DockerDaemonType int\<close>: a Go \<^verbatim>\<open>int\<close>, taken at its 64-bit width.
  The three constants are \<^verbatim>\<open>1 << iota\<close> for \<^verbatim>\<open>iota\<close> = 0, 1, 2.
\<close>

type_synonym DockerDaemonType = "64 word"

definition DockerDaemonTypeLocal :: DockerDaemonType where
  "DockerDaemonTypeLocal = push_bit 0 1"

definition DockerDaemonTypeRemote :: DockerDaemonType where
  "DockerDaemonTypeRemote = push_bit 1 1"

definition DockerDaemonTypeNone :: DockerDaemonType where
  "DockerDaemonTypeNone = push_bit 2 1"

definition NewDockerDaemonType :: "bool \<Rightarrow> bool \<Rightarrow> DockerDaemonType" where
  "NewDockerDaemonType allowLocal allowRemote =
     (let daemonType = DockerDaemonTypeNone;
          daemonType = (if allowLocal then daemonType OR DockerDaemonTypeLocal else daemonType);
          daemonType = (if allowRemote then daemonType OR DockerDaemonTypeRemote else daemonType)
      in daemonType)"

definition AllowLocal :: "DockerDaemonType \<Rightarrow> bool" where
  "AllowLocal t = (t AND DockerDaemonTypeLocal \<noteq> 0)"

definition AllowRemote :: "DockerDaemonType \<Rightarrow> bool" where
  "AllowRemote t = (t AND DockerDaemonTypeRemote \<noteq> 0)"

definition AllowNone :: "DockerDaemonType \<Rightarrow> bool" where
  "AllowNone t = (t AND DockerDaemonTypeNone \<noteq> 0)"

definition IsLocal :: "DockerDaemonType \<Rightarrow> bool" where
  "IsLocal t = (t = DockerDaemonTypeLocal)"

definition IsRemote :: "DockerDaemonType \<Rightarrow> bool" where
  "IsRemote t = (t = DockerDaemonTypeRemote)"

definition IsNone :: "DockerDaemonType \<Rightarrow> bool" where
  "IsNone t = (t = DockerDaemonTypeNone)"

definition IsAvailable :: "DockerDaemonType \<Rightarrow> bool" where
  "IsAvailable t = (\<not> IsNone t)"

section \<open>Errors (lines 81-89)\<close>

text \<open>
  A Go \<^verbatim>\<open>error\<close> value. \<^verbatim>\<open>unauthorizedError\<close> is the package's sentinel (line 81);
  \<open>Err msg\<close> is any other error value without a cause (\<^verbatim>\<open>errors.New\<close>,
  \<^verbatim>\<open>errors.Errorf\<close>, \<^verbatim>\<open>fmt.Errorf\<close>, or an error of a library), and
  \<open>Wrap err msg\<close> is \<^verbatim>\<open>errors.Wrap(err, msg)\<close>. Go compares the sentinel by pointer:
  no other error equals it, whatever its message, and here no other constructor does.
\<close>

datatype error = unauthorizedError | Err string | Wrap error string

fun Error :: "error \<Rightarrow> string" where
  "Error unauthorizedError = ''You are unauthorized to use this builder''"
| "Error (Err msg) = msg"
| "Error (Wrap err msg) = msg @ '': '' @ Error err"

text \<open>\<^verbatim>\<open>errors.Is\<close>: \<open>target\<close> is \<open>err\<close> or one of the causes \<open>err\<close> wraps.\<close>

fun errors_Is :: "error \<Rightarrow> error \<Rightarrow> bool" where
  "errors_Is (Wrap err msg) target = (Wrap err msg = target \<or> errors_Is err target)"
| "errors_Is err target = (err = target)"

definition isUnauthorized :: "error \<Rightarrow> bool" where
  "isUnauthorized err = errors_Is err unauthorizedError"

definition isRetyableError :: "error \<Rightarrow> bool" where
  "isRetyableError err = (\<not> isUnauthorized err)"

section \<open>Effects\<close>

text \<open>
  Durations and clock readings are counted in nanoseconds, as \<^verbatim>\<open>time.Duration\<close> is.
\<close>

type_synonym time_Duration = int
type_synonym time_Time = int

definition Millisecond :: time_Duration where "Millisecond = 1000000"
definition Second :: time_Duration where "Second = 1000 * Millisecond"
definition Minute :: time_Duration where "Minute = 60 * Second"

text \<open>
  What a function does besides returning is kept as the list of its actions, in the order
  the code performs them: the calls to the collaborators, the pings, the sleeps, the
  timer the poller sets (\<^verbatim>\<open>time.After\<close>), and the messages written to the terminal and
  to the progress indicator. A message is kept as its format string and its arguments.
\<close>

datatype arg = AStr string | ADur time_Duration | AErr error

datatype action =
    Ping
  | BackoffReset
  | Sleep time_Duration
  | TimeAfter time_Duration
  | Debug string "arg list"
  | Warn string "arg list"
  | CallEnsureRemoteBuilder string
  | CallWaitForRunningVM string time_Duration
  | StartProgressIndicatorMsg string
  | StopProgressIndicatorMsg string
  | ErrOut string
  | CallImageList string
  | CallImageRemove string

section \<open>Removing deployment tags (lines 311-329)\<close>

text \<open>
  The Docker daemon is a state \<open>'d\<close> with the two calls the function makes.
  \<^verbatim>\<open>ImageList\<close> is called with the filter \<^verbatim>\<open>reference=tag\<close>; \<^verbatim>\<open>ImageRemove\<close>
  (with \<^verbatim>\<open>PruneChildren: true\<close>) answers with an error or not and changes the daemon.
\<close>

record image =
  RepoTags :: "string list"

record 'd docker =
  ImageList :: "'d \<Rightarrow> string \<Rightarrow> error + image list"
  ImageRemove :: "'d \<Rightarrow> string \<Rightarrow> error option \<times> 'd"

text \<open>The inner loop, over the tags of one image (lines 320-325).\<close>

fun removeRepoTags :: "'d docker \<Rightarrow> string list \<Rightarrow> 'd \<Rightarrow> 'd \<times> action list" where
  "removeRepoTags api [] d = (d, [])"
| "removeRepoTags api (tag # tags) d =
     (case ImageRemove api d tag of
        (err, d') \<Rightarrow>
          (let l = CallImageRemove tag #
                   (case err of
                      Some e \<Rightarrow> [Debug ''Error deleting image'' [AErr e]]
                    | None \<Rightarrow> [])
           in case removeRepoTags api tags d' of (d'', l') \<Rightarrow> (d'', l @ l')))"

text \<open>The outer loop, over the images (lines 319-326).\<close>

fun removeImages :: "'d docker \<Rightarrow> image list \<Rightarrow> 'd \<Rightarrow> 'd \<times> action list" where
  "removeImages api [] d = (d, [])"
| "removeImages api (img # images) d =
     (case removeRepoTags api (RepoTags img) d of
        (d', l) \<Rightarrow> (case removeImages api images d' of (d'', l') \<Rightarrow> (d'', l @ l')))"

definition clearDeploymentTags ::
  "'d docker \<Rightarrow> 'd \<Rightarrow> string \<Rightarrow> error option \<times> 'd \<times> action list" where
  "clearDeploymentTags api d tag =
     (case ImageList api d tag of
        Inl err \<Rightarrow> (Some err, d, [CallImageList tag])
      | Inr images \<Rightarrow>
          (case removeImages api images d of
             (d', l) \<Rightarrow> (None, d', CallImageList tag # l)))"

section \<open>The backoff generator (lines 253-259)\<close>

text \<open>
  Modelled from the spec: the backoff generator is the package
  \<^verbatim>\<open>github.com/jpillora/backoff\<close>, whose code is not among the sources. The source
  sets its four parameters (minimum 200ms, maximum 2s, factor 1.2, jitter on) and calls
  \<^verbatim>\<open>Reset\<close> and \<^verbatim>\<open>Duration\<close>. The spec has it as "a stateful interval calculator
  producing increasing, jittered wait durations between retries, resettable", whose
  values are "capped in [200ms, 2s], grow by x1.2 each retryable failure (and are reset
  to the minimum at the start of each new healthy streak), with random jitter applied".
  So the generator counts the attempts since the last reset; attempt \<open>n\<close> has the nominal
  duration \<open>Min * Factor ^ n\<close>; with jitter on, the duration is drawn between the minimum
  and the nominal duration, by a random number \<open>r\<close> with \<open>0 \<le> r < 1\<close> that the caller of
  the model supplies; the outcome is cut to whole nanoseconds and kept within the minimum
  and the maximum. The package computes in \<^verbatim>\<open>float64\<close>; the model computes in exact
  rationals. A parameter that is not positive stands for the package's default.
\<close>

record Backoff =
  attempt :: nat
  Factor :: rat
  Jitter :: bool
  Min_b :: time_Duration
  Max_b :: time_Duration

definition maxInt64 :: rat where
  "maxInt64 = 2 ^ 63 - 1 - 512"

definition to_Duration :: "rat \<Rightarrow> int" where
  "to_Duration x = (if 0 \<le> x then \<lfloor>x\<rfloor> else \<lceil>x\<rceil>)"

definition ForAttempt :: "Backoff \<Rightarrow> nat \<Rightarrow> rat \<Rightarrow> time_Duration" where
  "ForAttempt b n r =
     (let min = (if Min_b b \<le> 0 then 100 * Millisecond else Min_b b);
          max = (if Max_b b \<le> 0 then 10 * Second else Max_b b)
      in if min \<ge> max then max
         else
           (let factor = (if Factor b \<le> 0 then 2 else Factor b);
                minf = of_int min;
                durf = minf * factor ^ n;
                durf = (if Jitter b then r * (durf - minf) + minf else durf)
            in if durf > maxInt64 then max
               else
                 (let dur = to_Duration durf
                  in if dur < min then min else if dur > max then max else dur)))"

definition Duration :: "Backoff \<Rightarrow> rat \<Rightarrow> time_Duration \<times> Backoff" where
  "Duration b r = (ForAttempt b (attempt b) r, b\<lparr>attempt := attempt b + 1\<rparr>)"

definition Reset :: "Backoff \<Rightarrow> Backoff" where
  "Reset b = b\<lparr>attempt := 0\<rparr>"

section \<open>The readiness poller (lines 250-309)\<close>

text \<open>
  One turn of the loop starts a ping and waits in the \<^verbatim>\<open>select\<close>. What the turn
  meets comes from outside the function, so it is an input of the model:
  \<^item> \<open>chosen\<close>: the case the \<^verbatim>\<open>select\<close> takes, namely the ping's outcome read from
    \<^verbatim>\<open>checkErr\<close> (\<open>None\<close> for a nil error), the deadline timer, or the context's
    cancellation;
  \<^item> \<open>clock_now\<close>: what \<^verbatim>\<open>time.Now()\<close> reads on line 278;
  \<^item> \<open>clock_since\<close>: what the clock reads when line 283 computes
    \<^verbatim>\<open>time.Since(healthyStart)\<close>;
  \<^item> \<open>rnd\<close>: the random number the backoff generator draws, if the turn asks it for a
    duration.
\<close>

datatype select_case = checkErr "error option" | deadline | ctx_Done

record iteration =
  chosen :: select_case
  clock_now :: time_Time
  clock_since :: time_Time
  rnd :: rat

text \<open>
  The variables of the loop. \<^verbatim>\<open>consecutiveSuccesses\<close> is a Go \<^verbatim>\<open>int\<close>; it grows by
  one a turn, so it stays far from the 64-bit bound and is an unbounded integer here.
  \<^verbatim>\<open>healthyStart\<close> starts as the zero \<^verbatim>\<open>time.Time\<close>, and is written before it is
  first read, because the counter starts at 0.
\<close>

record poller =
  consecutiveSuccesses :: int
  healthyStart :: time_Time
  b :: Backoff

text \<open>How a turn of the loop ends: with the next turn, with \<^verbatim>\<open>break OUTER\<close>, or with
  \<^verbatim>\<open>return err\<close>.\<close>

datatype flow = Next | BreakOuter | Return error

definition loop_body :: "iteration \<Rightarrow> poller \<Rightarrow> flow \<times> poller \<times> action list" where
  "loop_body it s =
     (case chosen it of
        checkErr None \<Rightarrow>
          (let (s, l) =
                 (if consecutiveSuccesses s = 0
                  then (s\<lparr>healthyStart := clock_now it, b := Reset (b s)\<rparr>, [BackoffReset])
                  else (s, []));
               s = s\<lparr>consecutiveSuccesses := consecutiveSuccesses s + 1\<rparr>
           in if clock_since it - healthyStart s > 3 * Second
              then (BreakOuter, s, Ping # l)
              else
                (case Duration (b s) (rnd it) of
                   (dur, b') \<Rightarrow>
                     (Next, s\<lparr>b := b'\<rparr>,
                      Ping # l @
                      [Debug ''Remote builder available, but pinging again in %s to be sure'' [ADur dur],
                       Sleep dur])))
      | checkErr (Some err) \<Rightarrow>
          (if \<not> isRetyableError err then (Return err, s, [Ping])
           else
             (let s = s\<lparr>consecutiveSuccesses := 0\<rparr>
              in case Duration (b s) (rnd it) of
                   (dur, b') \<Rightarrow>
                     (Next, s\<lparr>b := b'\<rparr>,
                      [Ping,
                       Debug ''Remote builder unavailable, retrying in %s (err: %v)'' [ADur dur, AErr err],
                       Sleep dur])))
      | deadline \<Rightarrow>
          (Return (Err ''Could not ping remote builder within 5 minutes, aborting.''), s, [Ping])
      | ctx_Done \<Rightarrow> (BreakOuter, s, [Ping, Warn ''Canceled'' []]))"

text \<open>
  The loop has no bound of its own. It runs over the turns it is given: the result is
  \<open>Some r\<close> when the function returns \<open>r\<close> (\<open>None\<close> for nil) within them, and
  \<open>None\<close> when it is still polling after the last of them.
\<close>

fun OUTER :: "iteration list \<Rightarrow> poller \<Rightarrow> error option option \<times> poller \<times> action list" where
  "OUTER [] s = (None, s, [])"
| "OUTER (it # its) s =
     (case loop_body it s of
        (Next, s', l) \<Rightarrow> (case OUTER its s' of (r, s'', l') \<Rightarrow> (r, s'', l @ l'))
      | (BreakOuter, s', l) \<Rightarrow> (Some None, s', l)
      | (Return err, s', l) \<Rightarrow> (Some (Some err), s', l))"

definition waitForDaemon_init :: poller where
  "waitForDaemon_init =
     \<lparr>consecutiveSuccesses = 0,
      healthyStart = 0,
      b = \<lparr>attempt = 0, Factor = 12 / 10, Jitter = True,
           Min_b = 200 * Millisecond, Max_b = 2 * Second\<rparr>\<rparr>"

definition waitForDaemon ::
  "iteration list \<Rightarrow> error option option \<times> poller \<times> action list" where
  "waitForDaemon its =
     (case OUTER its waitForDaemon_init of
        (r, s, l) \<Rightarrow> (r, s, TimeAfter (5 * Minute) # l))"

text \<open>Observations on a list of actions: the sleeps in order, the number of pings, and
  the number of resets of the backoff generator.\<close>

fun sleeps :: "action list \<Rightarrow> time_Duration list" where
  "sleeps [] = []"
| "sleeps (Sleep d # l) = d # sleeps l"
| "sleeps (a # l) = sleeps l"

definition pings_issued :: "action list \<Rightarrow> nat" where
  "pings_issued l = length (filter (\<lambda>a. a = Ping) l)"

definition resets :: "action list \<Rightarrow> nat" where
  "resets l = length (filter (\<lambda>a. a = BackoffReset) l)"

section \<open>The poller in wall-clock time (lines 251, 266-305)\<close>







section \<open>The endpoint resolver (lines 220-243)\<close>

text \<open>
  Of a parsed \<^verbatim>\<open>url.URL\<close> the function reads the host and the port, both taken from
  the field \<^verbatim>\<open>Host\<close> ("host or host:port"). \<^verbatim>\<open>Hostname\<close>, \<^verbatim>\<open>Port\<close> and
  \<^verbatim>\<open>net.JoinHostPort\<close> belong to Go's standard library and follow its documentation:
  the port is what follows the last colon of \<^verbatim>\<open>Host\<close> when that is empty or all digits
  (the characters 0 to 9),
  the host name is the rest without the square brackets of an IPv6 literal, and
  \<^verbatim>\<open>JoinHostPort\<close> puts a host that contains a colon back into square brackets.
\<close>

record URL =
  Scheme :: string
  Host :: string
  Path :: string

fun LastIndexByte :: "string \<Rightarrow> char \<Rightarrow> nat option" where
  "LastIndexByte [] c = None"
| "LastIndexByte (x # xs) c =
     (case LastIndexByte xs c of
        Some i \<Rightarrow> Some (Suc i)
      | None \<Rightarrow> if x = c then Some 0 else None)"

definition validOptionalPort :: "string \<Rightarrow> bool" where
  "validOptionalPort port =
     (case port of
        [] \<Rightarrow> True
      | c # ds \<Rightarrow> c = CHR '':'' \<and> list_all (\<lambda>d. d \<in> set ''0123456789'') ds)"

definition HasPrefix :: "string \<Rightarrow> string \<Rightarrow> bool" where
  "HasPrefix s pre = (take (length pre) s = pre)"

definition HasSuffix :: "string \<Rightarrow> string \<Rightarrow> bool" where
  "HasSuffix s suf = (length suf \<le> length s \<and> drop (length s - length suf) s = suf)"

definition splitHostPort :: "string \<Rightarrow> string \<times> string" where
  "splitHostPort hostPort =
     (let (host, port) =
            (case LastIndexByte hostPort CHR '':'' of
               Some colon \<Rightarrow>
                 if validOptionalPort (drop colon hostPort)
                 then (take colon hostPort, drop (colon + 1) hostPort)
                 else (hostPort, [])
             | None \<Rightarrow> (hostPort, []));
          host = (if HasPrefix host ''['' \<and> HasSuffix host '']''
                  then take (length host - 2) (drop 1 host) else host)
      in (host, port))"

definition Hostname :: "URL \<Rightarrow> string" where
  "Hostname u = fst (splitHostPort (Host u))"

definition Port :: "URL \<Rightarrow> string" where
  "Port u = snd (splitHostPort (Host u))"

definition JoinHostPort :: "string \<Rightarrow> string \<Rightarrow> string" where
  "JoinHostPort host port =
     (if CHR '':'' \<in> set host then ''['' @ host @ '']:'' @ port else host @ '':'' @ port)"

text \<open>
  The world outside the package, as far as the client factory meets it: the environment
  variables, the collaborators and the library calls, each with the answer it gives.
  \<^item> \<open>Getenv\<close>: \<^verbatim>\<open>os.Getenv\<close> (the empty string for a variable that is not set);
  \<^item> \<open>EnsureRemoteBuilder\<close>: the provisioning call of the API client, answering with the
    raw URL and the builder's app, or with an error;
  \<^item> \<open>url_Parse\<close>: \<^verbatim>\<open>url.Parse\<close>;
  \<^item> \<open>NewClientWithOpts\<close>: the creation of the Docker client for a host, answering with
    the address of the new client, or with an error;
  \<^item> \<open>IsInteractive\<close>: whether the streams are interactive;
  \<^item> \<open>WaitForRunningVM\<close>: the monitor's wait for the builder's instance, answering as the
    Go function does with a boolean and an error;
  \<^item> \<open>turns\<close>: what the turns of the readiness poller meet;
  \<^item> \<open>local_NewClientWithOpts\<close>, \<open>FromEnv\<close>, \<open>local_Ping\<close>: the three calls of
    \<^verbatim>\<open>newLocalDockerClient\<close>;
  \<^item> \<open>IsErrConnectionFailed\<close>: the Docker client's test of an error.
\<close>

record App =
  Name :: string

record world =
  Getenv :: "string \<Rightarrow> string"
  EnsureRemoteBuilder :: "string \<Rightarrow> error + string \<times> App"
  url_Parse :: "string \<Rightarrow> error + URL"
  NewClientWithOpts :: "string \<Rightarrow> error + nat"
  IsInteractive :: bool
  WaitForRunningVM :: "string \<Rightarrow> bool \<times> error option"
  turns :: "iteration list"
  local_NewClientWithOpts :: "error + nat"
  FromEnv :: "error option"
  local_Ping :: "error option"
  IsErrConnectionFailed :: "error \<Rightarrow> bool"

definition remoteBuilderURL ::
  "world \<Rightarrow> string \<Rightarrow> (error + string \<times> string) \<times> action list" where
  "remoteBuilderURL w appName =
     (let v = Getenv w ''FLY_REMOTE_BUILDER_HOST''
      in if v \<noteq> '''' then (Inr (v, ''''), [])
         else
           (case EnsureRemoteBuilder w appName of
              Inl err \<Rightarrow>
                (Inl (Err (''could not create remote builder: '' @ Error err)),
                 [CallEnsureRemoteBuilder appName])
            | Inr (rawURL, app) \<Rightarrow>
                (case url_Parse w rawURL of
                   Inl err \<Rightarrow>
                     (Inl (Wrap err ''error parsing remote builder url''),
                      [CallEnsureRemoteBuilder appName])
                 | Inr parsedURL \<Rightarrow>
                     (let host = Hostname parsedURL;
                          port = Port parsedURL;
                          port = (if port = '''' then ''10000'' else port)
                      in (Inr (''tcp://'' @ JoinHostPort host port, Name app),
                          [CallEnsureRemoteBuilder appName])))))"

section \<open>The Docker clients (lines 138-218)\<close>

text \<open>
  A client handle is the address of the \<^verbatim>\<open>dockerclient.Client\<close> the library allocated;
  a remote one also keeps the host it talks to and whether its transport verifies TLS
  (line 170). The \<^verbatim>\<open>Authorization\<close> header and the timeouts of the transport are left
  out.
\<close>

datatype Client = LocalClient nat | RemoteClient nat string bool

definition newLocalDockerClient :: "world \<Rightarrow> error + Client" where
  "newLocalDockerClient w =
     (case local_NewClientWithOpts w of
        Inl err \<Rightarrow> Inl err
      | Inr c \<Rightarrow>
          (case FromEnv w of
             Some err \<Rightarrow> Inl err
           | None \<Rightarrow>
               (case local_Ping w of
                  Some err \<Rightarrow> Inl err
                | None \<Rightarrow> Inr (LocalClient c))))"

text \<open>
  The function literal of lines 190-211: the wait for the builder's instance, when the
  builder has an app name, and then the readiness poller. The deferred
  \<^verbatim>\<open>StopProgressIndicatorMsg\<close> runs when the literal returns. The status callback handed
  to \<^verbatim>\<open>WaitForRunningVM\<close> is left out.
\<close>

definition waitForBuilder ::
  "world \<Rightarrow> string \<Rightarrow> error option option \<times> action list" where
  "waitForBuilder w remoteBuilderAppName =
     (if remoteBuilderAppName \<noteq> ''''
      then
        (let start =
               (if IsInteractive w
                then [StartProgressIndicatorMsg
                        (''Waiting for remote builder '' @ remoteBuilderAppName @ ''...'')]
                else [ErrOut (''Waiting for remote builder '' @ remoteBuilderAppName
                              @ ''...'' @ [CHR 0x0A])]);
             deferred =
               (if IsInteractive w
                then [StopProgressIndicatorMsg
                        (''Remote builder '' @ remoteBuilderAppName @ '' ready'')]
                else []);
             call = CallWaitForRunningVM remoteBuilderAppName (5 * Minute)
         in case WaitForRunningVM w remoteBuilderAppName of
              (remoteBuilderLaunched, Some err) \<Rightarrow>
                (Some (Some (Wrap err ''Error waiting for remote builder app'')),
                 start @ [call] @ deferred)
            | (remoteBuilderLaunched, None) \<Rightarrow>
                if \<not> remoteBuilderLaunched
                then
                  (Some (Some (Err ''remote builder app unavailable'')),
                   start @
                   [call,
                    Warn ''Remote builder did not start on time. Check remote builder logs with `flyctl logs -a %s`''
                      [AStr remoteBuilderAppName]]
                   @ deferred)
                else
                  (case waitForDaemon (turns w) of
                     (r, s, l) \<Rightarrow>
                       (r, start @ [call] @ l @ (if r = None then [] else deferred))))
      else (case waitForDaemon (turns w) of (r, s, l) \<Rightarrow> (r, l)))"

text \<open>
  \<^verbatim>\<open>newRemoteDockerClient\<close> returns a client or an error; the result is \<open>None\<close> when
  the readiness poller is still polling after the turns of the world.
\<close>

definition newRemoteDockerClient ::
  "world \<Rightarrow> string \<Rightarrow> (error + Client) option \<times> action list" where
  "newRemoteDockerClient w appName =
     (case remoteBuilderURL w appName of
        (Inl err, l0) \<Rightarrow> (Some (Inl err), l0)
      | (Inr (host, remoteBuilderAppName), l0) \<Rightarrow>
          (let l1 = l0 @ [Debug ''Remote Docker builder host: %s'' [AStr host]];
               tls = (Getenv w ''FLY_REMOTE_BUILDER_NO_TLS'' \<noteq> ''1'')
           in case NewClientWithOpts w host of
                Inl err \<Rightarrow> (Some (Inl (Wrap err ''Error creating docker client'')), l1)
              | Inr c \<Rightarrow>
                  (case waitForBuilder w remoteBuilderAppName of
                     (None, l2) \<Rightarrow> (None, l1 @ l2)
                   | (Some (Some err), l2) \<Rightarrow> (Some (Inl err), l1 @ l2)
                   | (Some None, l2) \<Rightarrow> (Some (Inr (RemoteClient c host tls)), l1 @ l2))))"

section \<open>The client factory (lines 30-79)\<close>

text \<open>
  The three function literals a factory can hold as its \<^verbatim>\<open>buildFn\<close>: the one that
  returns the local client, the one over the variable \<^verbatim>\<open>cachedDocker\<close> and the app
  name, and the one that fails. Calling the second may change \<^verbatim>\<open>cachedDocker\<close>, so a
  call returns the factory as it is afterwards.
\<close>

datatype closure = ReturnLocal Client | BuildRemote string "Client option" | NoDaemon

record dockerClientFactory =
  mode :: DockerDaemonType
  buildFn :: closure

definition newDockerClientFactory ::
  "DockerDaemonType \<Rightarrow> world \<Rightarrow> string \<Rightarrow> dockerClientFactory \<times> action list" where
  "newDockerClientFactory daemonType w appName =
     (let (found, l) =
            (if AllowLocal daemonType
             then
               (case newLocalDockerClient w of
                  Inr c \<Rightarrow> (Some c, [Debug ''trying local docker daemon'' []])
                | Inl err \<Rightarrow>
                    (None,
                     [Debug ''trying local docker daemon'' [],
                      if \<not> IsErrConnectionFailed w err
                      then Warn ''Error connecting to local docker daemon:'' [AErr err]
                      else Debug ''Local docker daemon unavailable'' []]))
             else (None, []))
      in case found of
           Some c \<Rightarrow> (\<lparr>mode = DockerDaemonTypeLocal, buildFn = ReturnLocal c\<rparr>, l)
         | None \<Rightarrow>
             if AllowRemote daemonType
             then (\<lparr>mode = DockerDaemonTypeRemote, buildFn = BuildRemote appName None\<rparr>,
                   l @ [Debug ''trying remote docker daemon'' []])
             else (\<lparr>mode = DockerDaemonTypeNone, buildFn = NoDaemon\<rparr>, l))"

text \<open>A call of the factory's \<^verbatim>\<open>buildFn\<close> in a world.\<close>

definition call_buildFn ::
  "world \<Rightarrow> dockerClientFactory \<Rightarrow> (error + Client) option \<times> dockerClientFactory \<times> action list" where
  "call_buildFn w f =
     (case buildFn f of
        ReturnLocal c \<Rightarrow> (Some (Inr c), f, [])
      | BuildRemote appName cachedDocker \<Rightarrow>
          (case cachedDocker of
             Some c \<Rightarrow> (Some (Inr c), f, [])
           | None \<Rightarrow>
               (case newRemoteDockerClient w appName of
                  (Some (Inr c), l) \<Rightarrow>
                    (Some (Inr c), f\<lparr>buildFn := BuildRemote appName (Some c)\<rparr>, l)
                | (Some (Inl err), l) \<Rightarrow> (Some (Inl err), f, l)
                | (None, l) \<Rightarrow> (None, f, l)))
      | NoDaemon \<Rightarrow> (Some (Inl (Err ''no docker daemon available'')), f, []))"

section \<open>Observations and example environments\<close>

text \<open>The tags a run asked the daemon to remove, in order.\<close>

fun removals :: "action list \<Rightarrow> string list" where
  "removals [] = []"
| "removals (CallImageRemove t # l) = t # removals l"
| "removals (a # l) = removals l"

text \<open>
  A daemon that holds a list of tags, lists the ones that match the reference as one
  image, and refuses every removal because the image is in use.
\<close>

definition in_use_docker :: "string list docker" where
  "in_use_docker =
     \<lparr>ImageList = (\<lambda>d reference. Inr [\<lparr>RepoTags = filter (\<lambda>t. t = reference) d\<rparr>]),
      ImageRemove = (\<lambda>d t. (Some (Err ''conflict: image is being used by running container''), d))\<rparr>"

text \<open>The duration the backoff generator of the poller gives attempt \<open>n\<close> with the jitter
  off: 200ms times 1.2 to the \<open>n\<close>, cut to whole nanoseconds, at most 2s.\<close>

definition nominal_duration :: "nat \<Rightarrow> time_Duration" where
  "nominal_duration n = ForAttempt ((b waitForDaemon_init)\<lparr>Jitter := False\<rparr>) n 0"

text \<open>
  Example turns of the poller: a ping that succeeds, seen when the clock reads \<open>t\<close>; a
  ping that fails with \<open>err\<close>, after which the backoff generator draws \<open>r\<close>; a turn in
  which the deadline timer fires; a turn in which the context is cancelled.
\<close>

definition succeeds_at :: "time_Time \<Rightarrow> iteration" where
  "succeeds_at t = \<lparr>chosen = checkErr None, clock_now = t, clock_since = t, rnd = 1 / 2\<rparr>"

definition fails_with :: "error \<Rightarrow> rat \<Rightarrow> iteration" where
  "fails_with err r = \<lparr>chosen = checkErr (Some err), clock_now = 0, clock_since = 0, rnd = r\<rparr>"



text \<open>The actions that call the provisioning collaborator or the wait for the instance.\<close>

fun calls_collaborator :: "action \<Rightarrow> bool" where
  "calls_collaborator (CallEnsureRemoteBuilder appName) = True"
| "calls_collaborator (CallWaitForRunningVM appName timeout) = True"
| "calls_collaborator a = False"

text \<open>
  Example worlds. \<open>simple_Parse\<close> stands in for \<^verbatim>\<open>url.Parse\<close> on URLs of the shape
  \<^verbatim>\<open>scheme://host[:port][/path]\<close>: the scheme is what precedes the first
  \<^verbatim>\<open>://\<close>, \<^verbatim>\<open>Host\<close> is what follows up to the next slash, and the rest is the path.
  In \<open>example_world override rawURL ts\<close> the override variable has the value
  \<open>override\<close>, provisioning answers with \<open>rawURL\<close> and the app
  \<^verbatim>\<open>fly-builder-\<close> followed by the app's name, the instance is running, the client is
  created at address 7, and the poller meets the turns \<open>ts\<close>; there is no local daemon.
  In \<open>failing_world\<close> provisioning fails.
\<close>

fun cut_at :: "string \<Rightarrow> string \<Rightarrow> (string \<times> string) option" where
  "cut_at sep [] = (if sep = [] then Some ([], []) else None)"
| "cut_at sep (c # cs) =
     (if take (length sep) (c # cs) = sep then Some ([], drop (length sep) (c # cs))
      else map_option (\<lambda>(before, after). (c # before, after)) (cut_at sep cs))"

definition simple_Parse :: "string \<Rightarrow> error + URL" where
  "simple_Parse rawURL =
     (case cut_at ''://'' rawURL of
        None \<Rightarrow> Inl (Err ''missing protocol scheme'')
      | Some (scheme, rest) \<Rightarrow>
          (case cut_at ''/'' rest of
             None \<Rightarrow> Inr \<lparr>Scheme = scheme, Host = rest, Path = ''''\<rparr>
           | Some (authority, path) \<Rightarrow>
               Inr \<lparr>Scheme = scheme, Host = authority, Path = CHR ''/'' # path\<rparr>))"

definition example_world :: "string \<Rightarrow> string \<Rightarrow> iteration list \<Rightarrow> world" where
  "example_world override rawURL ts =
     \<lparr>Getenv = (\<lambda>name. if name = ''FLY_REMOTE_BUILDER_HOST'' then override else ''''),
      EnsureRemoteBuilder = (\<lambda>appName. Inr (rawURL, \<lparr>Name = ''fly-builder-'' @ appName\<rparr>)),
      url_Parse = simple_Parse,
      NewClientWithOpts = (\<lambda>host. Inr 7),
      IsInteractive = False,
      WaitForRunningVM = (\<lambda>appName. (True, None)),
      turns = ts,
      local_NewClientWithOpts = Inr 3,
      FromEnv = None,
      local_Ping = Some (Err ''Cannot connect to the Docker daemon''),
      IsErrConnectionFailed = (\<lambda>err. True)\<rparr>"

definition failing_world :: world where
  "failing_world =
     (example_world '''' '''' [])
       \<lparr>EnsureRemoteBuilder := (\<lambda>appName. Inl (Err ''not authorized to create builders''))\<rparr>"

section \<open>Properties of the daemon modes\<close>

lemma DockerDaemonType_values:
  "DockerDaemonTypeLocal = 1" "DockerDaemonTypeRemote = 2" "DockerDaemonTypeNone = 4"
  by (simp_all add: DockerDaemonTypeLocal_def DockerDaemonTypeRemote_def DockerDaemonTypeNone_def)

lemma NewDockerDaemonType_values:
  "NewDockerDaemonType False False = 4"
  "NewDockerDaemonType True False = 5"
  "NewDockerDaemonType False True = 6"
  "NewDockerDaemonType True True = 7"
  by (simp_all add: NewDockerDaemonType_def DockerDaemonType_values)

text \<open>
  Claim C4, as amended. For every pair of booleans, the mode built by
  \<^verbatim>\<open>NewDockerDaemonType\<close> allows a local daemon exactly when \<open>allowLocal\<close> holds,
  allows a remote daemon exactly when \<open>allowRemote\<close> holds, and is available exactly
  when one of the two holds; so (false, false) is the unavailable mode, and (true, false)
  allows the local daemon only. That last mode is not \<^verbatim>\<open>IsLocal\<close>: its value is
  \<^verbatim>\<open>DockerDaemonTypeNone | DockerDaemonTypeLocal\<close>, which differs from the constant
  \<^verbatim>\<open>DockerDaemonTypeLocal\<close> that \<^verbatim>\<open>IsLocal\<close> compares with.
\<close>

theorem NewDockerDaemonType_queries:
  "AllowLocal (NewDockerDaemonType allowLocal allowRemote) = allowLocal
   \<and> AllowRemote (NewDockerDaemonType allowLocal allowRemote) = allowRemote
   \<and> IsAvailable (NewDockerDaemonType allowLocal allowRemote) = (allowLocal \<or> allowRemote)
   \<and> \<not> IsAvailable (NewDockerDaemonType False False)
   \<and> AllowLocal (NewDockerDaemonType True False)
   \<and> \<not> AllowRemote (NewDockerDaemonType True False)
   \<and> IsAvailable (NewDockerDaemonType True False)
   \<and> \<not> IsLocal (NewDockerDaemonType True False)"
  by (cases allowLocal; cases allowRemote)
     (simp_all add: NewDockerDaemonType_values AllowLocal_def AllowRemote_def IsAvailable_def
        IsNone_def IsLocal_def DockerDaemonType_values)

text \<open>
  Claim C4 as the spec states it fails: the mode built from (true, false) is not the
  local-only mode in the sense of \<^verbatim>\<open>IsLocal\<close>.
\<close>

theorem NewDockerDaemonType_local_only_counterexample:
  "\<not> IsLocal (NewDockerDaemonType True False)"
  by (simp add: NewDockerDaemonType_values IsLocal_def DockerDaemonType_values)

text \<open>
  Claim C9. Every mode built by \<^verbatim>\<open>NewDockerDaemonType\<close> has the None bit set, so
  \<^verbatim>\<open>AllowNone\<close> holds on it whatever the two booleans are, and neither \<^verbatim>\<open>IsLocal\<close>
  nor \<^verbatim>\<open>IsRemote\<close> holds on it: the constants they compare with lack the None bit.
\<close>

theorem NewDockerDaemonType_None_bit:
  "AllowNone (NewDockerDaemonType allowLocal allowRemote)
   \<and> \<not> IsLocal (NewDockerDaemonType allowLocal allowRemote)
   \<and> \<not> IsRemote (NewDockerDaemonType allowLocal allowRemote)
   \<and> \<not> AllowNone DockerDaemonTypeLocal
   \<and> \<not> AllowNone DockerDaemonTypeRemote"
  by (cases allowLocal; cases allowRemote)
     (simp_all add: NewDockerDaemonType_values AllowNone_def IsLocal_def IsRemote_def
        DockerDaemonType_values)

section \<open>Properties of the removal of deployment tags\<close>

lemma removals_append: "removals (l @ l') = removals l @ removals l'"
  by (induction l rule: removals.induct) simp_all

lemma removals_removeRepoTags: "removals (snd (removeRepoTags api tags d)) = tags"
  by (induction tags arbitrary: d) (simp_all add: split_beta removals_append split: option.splits)

lemma removals_removeImages:
  "removals (snd (removeImages api images d)) = concat (map RepoTags images)"
proof (induction images arbitrary: d)
  case Nil
  then show ?case by simp
next
  case (Cons img images)
  show ?case
    by (simp add: split_beta removals_append removals_removeRepoTags Cons.IH)
qed

text \<open>
  Claim C10. \<^verbatim>\<open>clearDeploymentTags\<close> returns an error exactly when the listing of the
  images fails, and then it is the listing's error. When the listing succeeds, the
  removal of every tag of every listed image is asked for, in order; a removal that
  fails is written to the debug output and the loop goes on with the next tag; the
  result is nil. So nil does not say that the tags are gone: with a daemon that refuses
  every removal, the function returns nil and the daemon holds the tag as before.
\<close>

theorem clearDeploymentTags_swallows_removal_errors:
  "fst (clearDeploymentTags api d tag) =
     (case ImageList api d tag of Inl err \<Rightarrow> Some err | Inr images \<Rightarrow> None)
   \<and> (\<forall>images. ImageList api d tag = Inr images \<longrightarrow>
          removals (snd (snd (clearDeploymentTags api d tag))) = concat (map RepoTags images))
   \<and> (\<forall>t ts e d'. ImageRemove api d t = (Some e, d') \<longrightarrow>
          removeRepoTags api (t # ts) d =
            (fst (removeRepoTags api ts d'),
             CallImageRemove t # Debug ''Error deleting image'' [AErr e]
               # snd (removeRepoTags api ts d')))
   \<and> clearDeploymentTags in_use_docker [''registry.fly.io/app:deployment-1'']
        ''registry.fly.io/app:deployment-1'' =
        (None, [''registry.fly.io/app:deployment-1''],
         [CallImageList ''registry.fly.io/app:deployment-1'',
          CallImageRemove ''registry.fly.io/app:deployment-1'',
          Debug ''Error deleting image''
            [AErr (Err ''conflict: image is being used by running container'')]])"
proof (intro conjI allI impI)
  show "fst (clearDeploymentTags api d tag) =
     (case ImageList api d tag of Inl err \<Rightarrow> Some err | Inr images \<Rightarrow> None)"
    by (simp add: clearDeploymentTags_def split: sum.splits prod.splits)
next
  fix images assume "ImageList api d tag = Inr images"
  then show "removals (snd (snd (clearDeploymentTags api d tag))) = concat (map RepoTags images)"
    by (simp add: clearDeploymentTags_def split_beta removals_removeImages)
next
  fix t ts e d' assume "ImageRemove api d t = (Some e, d')"
  then show "removeRepoTags api (t # ts) d =
            (fst (removeRepoTags api ts d'),
             CallImageRemove t # Debug ''Error deleting image'' [AErr e]
               # snd (removeRepoTags api ts d'))"
    by (simp add: split_beta)
next
  show "clearDeploymentTags in_use_docker [''registry.fly.io/app:deployment-1'']
        ''registry.fly.io/app:deployment-1'' =
        (None, [''registry.fly.io/app:deployment-1''],
         [CallImageList ''registry.fly.io/app:deployment-1'',
          CallImageRemove ''registry.fly.io/app:deployment-1'',
          Debug ''Error deleting image''
            [AErr (Err ''conflict: image is being used by running container'')]])"
    by (simp add: clearDeploymentTags_def in_use_docker_def)
qed

text \<open>
  The theorem of claim C10 at a daemon that holds three tags and refuses every removal:
  two tags match, both removals are asked for, the first one fails, is logged, and the
  loop goes on.
\<close>

theorem clearDeploymentTags_swallows_removal_errors_witness:
  "ImageList in_use_docker [''a:1'', ''b:2'', ''a:1''] ''a:1'' = Inr [\<lparr>RepoTags = [''a:1'', ''a:1'']\<rparr>]
   \<and> fst (clearDeploymentTags in_use_docker [''a:1'', ''b:2'', ''a:1''] ''a:1'') = None
   \<and> removals (snd (snd (clearDeploymentTags in_use_docker [''a:1'', ''b:2'', ''a:1''] ''a:1'')))
       = [''a:1'', ''a:1'']
   \<and> ImageRemove in_use_docker [''a:1'', ''b:2'', ''a:1''] ''a:1''
       = (Some (Err ''conflict: image is being used by running container''), [''a:1'', ''b:2'', ''a:1''])
   \<and> removeRepoTags in_use_docker [''a:1'', ''a:1''] [''a:1'', ''b:2'', ''a:1''] =
       (fst (removeRepoTags in_use_docker [''a:1''] [''a:1'', ''b:2'', ''a:1'']),
        CallImageRemove ''a:1''
          # Debug ''Error deleting image'' [AErr (Err ''conflict: image is being used by running container'')]
          # snd (removeRepoTags in_use_docker [''a:1''] [''a:1'', ''b:2'', ''a:1'']))"
  using clearDeploymentTags_swallows_removal_errors
    [of in_use_docker "[''a:1'', ''b:2'', ''a:1'']" "''a:1''"]
  by (simp add: in_use_docker_def)

section \<open>Properties of the readiness poller\<close>

lemma OUTER_append:
  "OUTER (pre @ its) s =
     (case OUTER pre s of
        (None, s', l) \<Rightarrow> (case OUTER its s' of (r, s'', l') \<Rightarrow> (r, s'', l @ l'))
      | (Some r, s', l) \<Rightarrow> (Some r, s', l))"
proof (induction pre arbitrary: s)
  case Nil
  then show ?case by (simp add: split_beta)
next
  case (Cons it pre)
  obtain f s1 l1 where lb: "loop_body it s = (f, s1, l1)"
    by (cases "loop_body it s")
  show ?case
  proof (cases f)
    case Next
    then show ?thesis
      using lb Cons.IH [of s1] by (simp add: split_beta split: option.splits)
  next
    case BreakOuter
    then show ?thesis using lb by simp
  next
    case (Return err)
    then show ?thesis using lb by simp
  qed
qed

lemma ForAttempt_attempt_update [simp]:
  "ForAttempt (x\<lparr>attempt := k\<rparr>) n r = ForAttempt x n r"
  unfolding ForAttempt_def Let_def by (simp split del: if_split cong: if_cong)


lemma loop_body_ctx_Done:
  "chosen it = ctx_Done \<Longrightarrow> loop_body it s = (BreakOuter, s, [Ping, Warn ''Canceled'' []])"
  by (simp add: loop_body_def)

lemma loop_body_unauthorized:
  "chosen it = checkErr (Some err) \<Longrightarrow> isUnauthorized err \<Longrightarrow>
   loop_body it s = (Return err, s, [Ping])"
  by (simp add: loop_body_def isRetyableError_def)

lemma loop_body_retry:
  "chosen it = checkErr (Some err) \<Longrightarrow> \<not> isUnauthorized err \<Longrightarrow>
   loop_body it s =
     (Next,
      s\<lparr>consecutiveSuccesses := 0, b := (b s)\<lparr>attempt := attempt (b s) + 1\<rparr>\<rparr>,
      [Ping,
       Debug ''Remote builder unavailable, retrying in %s (err: %v)''
         [ADur (ForAttempt (b s) (attempt (b s)) (rnd it)), AErr err],
       Sleep (ForAttempt (b s) (attempt (b s)) (rnd it))])"
  by (simp add: loop_body_def isRetyableError_def Duration_def Let_def)

lemma loop_body_first_success:
  "chosen it = checkErr None \<Longrightarrow> consecutiveSuccesses s = 0 \<Longrightarrow>
   loop_body it s =
     (if clock_since it - clock_now it > 3 * Second
      then (BreakOuter,
            s\<lparr>consecutiveSuccesses := 1, healthyStart := clock_now it,
              b := (b s)\<lparr>attempt := 0\<rparr>\<rparr>,
            [Ping, BackoffReset])
      else (Next,
            s\<lparr>consecutiveSuccesses := 1, healthyStart := clock_now it,
              b := (b s)\<lparr>attempt := 1\<rparr>\<rparr>,
            [Ping, BackoffReset,
             Debug ''Remote builder available, but pinging again in %s to be sure''
               [ADur (ForAttempt (b s) 0 (rnd it))],
             Sleep (ForAttempt (b s) 0 (rnd it))]))"
  by (simp add: loop_body_def Duration_def Reset_def Let_def)

lemma loop_body_later_success:
  "chosen it = checkErr None \<Longrightarrow> consecutiveSuccesses s \<noteq> 0 \<Longrightarrow>
   loop_body it s =
     (if clock_since it - healthyStart s > 3 * Second
      then (BreakOuter, s\<lparr>consecutiveSuccesses := consecutiveSuccesses s + 1\<rparr>, [Ping])
      else (Next,
            s\<lparr>consecutiveSuccesses := consecutiveSuccesses s + 1,
              b := (b s)\<lparr>attempt := attempt (b s) + 1\<rparr>\<rparr>,
            [Ping,
             Debug ''Remote builder available, but pinging again in %s to be sure''
               [ADur (ForAttempt (b s) (attempt (b s)) (rnd it))],
             Sleep (ForAttempt (b s) (attempt (b s)) (rnd it))]))"
  by (simp add: loop_body_def Duration_def Let_def)


lemma sleeps_append: "sleeps (l @ l') = sleeps l @ sleeps l'"
  by (induction l rule: sleeps.induct) simp_all

lemma OUTER_prefix_polling:
  "fst (OUTER (xs @ ys) s) = None \<Longrightarrow> fst (OUTER xs s) = None"
  by (simp add: OUTER_append split_beta split: option.splits)

lemma ForAttempt_init_0:
  "ForAttempt (b waitForDaemon_init) 0 r = 200 * Millisecond"
  by (simp add: ForAttempt_def waitForDaemon_init_def Millisecond_def Second_def maxInt64_def
      to_Duration_def)

lemma pings_issued_simps [simp]:
  "pings_issued [] = 0"
  "pings_issued (a # l) = (if a = Ping then 1 else 0) + pings_issued l"
  "pings_issued (l @ l') = pings_issued l + pings_issued l'"
  by (simp_all add: pings_issued_def)

lemma resets_simps [simp]:
  "resets [] = 0"
  "resets (a # l) = (if a = BackoffReset then 1 else 0) + resets l"
  "resets (l @ l') = resets l + resets l'"
  by (simp_all add: resets_def)

lemma streak_polling:
  assumes "0 < consecutiveSuccesses s"
    and "\<forall>i\<in>set pre. chosen i = checkErr None \<and> clock_since i - healthyStart s \<le> 3 * Second"
  shows "fst (OUTER pre s) = None
       \<and> healthyStart (fst (snd (OUTER pre s))) = healthyStart s
       \<and> consecutiveSuccesses (fst (snd (OUTER pre s))) = consecutiveSuccesses s + int (length pre)
       \<and> pings_issued (snd (snd (OUTER pre s))) = length pre
       \<and> resets (snd (snd (OUTER pre s))) = 0
       \<and> length (sleeps (snd (snd (OUTER pre s)))) = length pre"
  using assms
proof (induction pre arbitrary: s)
  case Nil
  then show ?case by simp
next
  case (Cons i pre)
  let ?s' = "s\<lparr>consecutiveSuccesses := consecutiveSuccesses s + 1,
              b := (b s)\<lparr>attempt := attempt (b s) + 1\<rparr>\<rparr>"
  have lb: "loop_body i s =
      (Next, ?s',
       [Ping,
        Debug ''Remote builder available, but pinging again in %s to be sure''
          [ADur (ForAttempt (b s) (attempt (b s)) (rnd i))],
        Sleep (ForAttempt (b s) (attempt (b s)) (rnd i))])"
    using Cons.prems by (simp add: loop_body_later_success)
  have "0 < consecutiveSuccesses ?s'" using Cons.prems by simp
  moreover have "\<forall>j\<in>set pre. chosen j = checkErr None \<and> clock_since j - healthyStart ?s' \<le> 3 * Second"
    using Cons.prems by simp
  ultimately have IH: "fst (OUTER pre ?s') = None
       \<and> healthyStart (fst (snd (OUTER pre ?s'))) = healthyStart ?s'
       \<and> consecutiveSuccesses (fst (snd (OUTER pre ?s'))) = consecutiveSuccesses ?s' + int (length pre)
       \<and> pings_issued (snd (snd (OUTER pre ?s'))) = length pre
       \<and> resets (snd (snd (OUTER pre ?s'))) = 0
       \<and> length (sleeps (snd (snd (OUTER pre ?s')))) = length pre"
    by (rule Cons.IH)
  show ?case
    using IH by (simp add: lb split_beta)
qed

text \<open>The run of a streak from the start of the function.\<close>

lemma streak_from_start:
  assumes "\<forall>i\<in>set (p # pre). chosen i = checkErr None \<and> clock_since i - clock_now p \<le> 3 * Second"
    and "consecutiveSuccesses s = 0"
  shows "fst (OUTER (p # pre) s) = None
       \<and> healthyStart (fst (snd (OUTER (p # pre) s))) = clock_now p
       \<and> consecutiveSuccesses (fst (snd (OUTER (p # pre) s))) = 1 + int (length pre)
       \<and> pings_issued (snd (snd (OUTER (p # pre) s))) = length pre + 1
       \<and> resets (snd (snd (OUTER (p # pre) s))) = 1
       \<and> take 2 (snd (snd (OUTER (p # pre) s))) = [Ping, BackoffReset]
       \<and> sleeps (snd (snd (OUTER (p # pre) s))) \<noteq> []
       \<and> hd (sleeps (snd (snd (OUTER (p # pre) s)))) = ForAttempt (b s) 0 (rnd p)
       \<and> length (sleeps (snd (snd (OUTER (p # pre) s)))) = length pre + 1"
proof -
  let ?s' = "s\<lparr>consecutiveSuccesses := 1, healthyStart := clock_now p,
              b := (b s)\<lparr>attempt := 1\<rparr>\<rparr>"
  have lb: "loop_body p s =
      (Next, ?s',
       [Ping, BackoffReset,
        Debug ''Remote builder available, but pinging again in %s to be sure''
          [ADur (ForAttempt (b s) 0 (rnd p))],
        Sleep (ForAttempt (b s) 0 (rnd p))])"
    using assms by (simp add: loop_body_first_success)
  have "0 < consecutiveSuccesses ?s'" by simp
  moreover have "\<forall>i\<in>set pre. chosen i = checkErr None \<and> clock_since i - healthyStart ?s' \<le> 3 * Second"
    using assms by simp
  ultimately have R: "fst (OUTER pre ?s') = None
       \<and> healthyStart (fst (snd (OUTER pre ?s'))) = healthyStart ?s'
       \<and> consecutiveSuccesses (fst (snd (OUTER pre ?s'))) = consecutiveSuccesses ?s' + int (length pre)
       \<and> pings_issued (snd (snd (OUTER pre ?s'))) = length pre
       \<and> resets (snd (snd (OUTER pre ?s'))) = 0
       \<and> length (sleeps (snd (snd (OUTER pre ?s')))) = length pre"
    by (rule streak_polling)
  show ?thesis
    using R by (simp add: lb split_beta)
qed


lemma waitForDaemon_fst: "fst (waitForDaemon its) = fst (OUTER its waitForDaemon_init)"
  by (simp add: waitForDaemon_def split_beta)


lemma waitForDaemon_log:
  "snd (snd (waitForDaemon its)) = TimeAfter (5 * Minute) # snd (snd (OUTER its waitForDaemon_init))"
  by (simp add: waitForDaemon_def split_beta)

lemma init_consecutiveSuccesses [simp]: "consecutiveSuccesses waitForDaemon_init = 0"
  by (simp add: waitForDaemon_init_def)

text \<open>
  Claim C1. Take a run of the poller in which every turn reads a ping that succeeded,
  and let the clock read \<open>h\<close> on line 278 in the first turn. Readiness is declared in
  the first turn in which the time since \<open>h\<close> exceeds three seconds: after every
  number of earlier turns the poller is still polling, and in that turn the function
  returns nil, with \<^verbatim>\<open>healthyStart\<close> equal to \<open>h\<close> and one ping issued for each turn. The
  backoff generator is reset once, right after the first ping, and the first wait after
  it is the minimum, 200ms.
\<close>

theorem waitForDaemon_ready_after_stability_window:
  assumes succ: "\<forall>i\<in>set (pre @ [it]). chosen i = checkErr None"
    and early: "\<forall>i\<in>set pre. clock_since i - clock_now (hd (pre @ [it])) \<le> 3 * Second"
    and late: "3 * Second < clock_since it - clock_now (hd (pre @ [it]))"
  shows "(\<forall>n. fst (waitForDaemon (take n pre)) = None)
       \<and> fst (waitForDaemon (pre @ it # rest)) = Some None
       \<and> healthyStart (fst (snd (waitForDaemon (pre @ it # rest)))) = clock_now (hd (pre @ [it]))
       \<and> consecutiveSuccesses (fst (snd (waitForDaemon (pre @ it # rest)))) = int (length pre) + 1
       \<and> pings_issued (snd (snd (waitForDaemon (pre @ it # rest)))) = length pre + 1
       \<and> resets (snd (snd (waitForDaemon (pre @ it # rest)))) = 1
       \<and> take 3 (snd (snd (waitForDaemon (pre @ it # rest))))
           = [TimeAfter (5 * Minute), Ping, BackoffReset]
       \<and> length (sleeps (snd (snd (waitForDaemon (pre @ it # rest))))) = length pre
       \<and> (pre \<noteq> [] \<longrightarrow>
            hd (sleeps (snd (snd (waitForDaemon (pre @ it # rest))))) = 200 * Millisecond)"
proof (cases pre)
  case Nil
  have "loop_body it waitForDaemon_init =
      (BreakOuter,
       waitForDaemon_init\<lparr>consecutiveSuccesses := 1, healthyStart := clock_now it,
          b := (b waitForDaemon_init)\<lparr>attempt := 0\<rparr>\<rparr>,
       [Ping, BackoffReset])"
    using succ late Nil by (simp add: loop_body_first_success)
  then show ?thesis
    using Nil by (simp add: waitForDaemon_def)
next
  case (Cons p ps)
  let ?s0 = waitForDaemon_init
  have "\<forall>i\<in>set (p # ps). chosen i = checkErr None \<and> clock_since i - clock_now p \<le> 3 * Second"
    using succ early Cons by simp
  then have R: "fst (OUTER (p # ps) ?s0) = None
       \<and> healthyStart (fst (snd (OUTER (p # ps) ?s0))) = clock_now p
       \<and> consecutiveSuccesses (fst (snd (OUTER (p # ps) ?s0))) = 1 + int (length ps)
       \<and> pings_issued (snd (snd (OUTER (p # ps) ?s0))) = length ps + 1
       \<and> resets (snd (snd (OUTER (p # ps) ?s0))) = 1
       \<and> take 2 (snd (snd (OUTER (p # ps) ?s0))) = [Ping, BackoffReset]
       \<and> sleeps (snd (snd (OUTER (p # ps) ?s0))) \<noteq> []
       \<and> hd (sleeps (snd (snd (OUTER (p # ps) ?s0)))) = ForAttempt (b ?s0) 0 (rnd p)
       \<and> length (sleeps (snd (snd (OUTER (p # ps) ?s0)))) = length ps + 1"
    by (rule streak_from_start) simp
  obtain s1 l1 where run: "OUTER pre ?s0 = (None, s1, l1)"
    using R Cons by (cases "OUTER pre ?s0") auto
  have s1: "healthyStart s1 = clock_now p" "consecutiveSuccesses s1 = 1 + int (length ps)"
    and l1: "pings_issued l1 = length ps + 1" "resets l1 = 1" "take 2 l1 = [Ping, BackoffReset]"
      "sleeps l1 \<noteq> []" "hd (sleeps l1) = ForAttempt (b ?s0) 0 (rnd p)"
      "length (sleeps l1) = length ps + 1"
    using R run Cons by simp_all
  have last: "loop_body it s1 =
      (BreakOuter, s1\<lparr>consecutiveSuccesses := consecutiveSuccesses s1 + 1\<rparr>, [Ping])"
    using succ late s1 Cons by (simp add: loop_body_later_success)
  have all: "OUTER (pre @ it # rest) ?s0 =
      (Some None, s1\<lparr>consecutiveSuccesses := consecutiveSuccesses s1 + 1\<rparr>, l1 @ [Ping])"
    by (simp add: OUTER_append run last)
  have polling: "\<forall>n. fst (waitForDaemon (take n pre)) = None"
  proof
    fix n
    have "fst (OUTER (take n pre @ drop n pre) ?s0) = None" using run by simp
    then have "fst (OUTER (take n pre) ?s0) = None" by (rule OUTER_prefix_polling)
    then show "fst (waitForDaemon (take n pre)) = None" by (simp add: waitForDaemon_fst)
  qed
  have tk: "take 2 (l1 @ [Ping]) = [Ping, BackoffReset]"
    using l1(3) by (cases l1; cases "tl l1") auto
  have wf: "waitForDaemon (pre @ it # rest) =
      (Some None, s1\<lparr>consecutiveSuccesses := consecutiveSuccesses s1 + 1\<rparr>,
       TimeAfter (5 * Minute) # l1 @ [Ping])"
    using all by (simp add: waitForDaemon_def)
  have pre: "hd (pre @ [it]) = p" "length pre = length ps + 1" "pre \<noteq> []"
    using Cons by simp_all
  have "fst (waitForDaemon (pre @ it # rest)) = Some None"
    by (simp add: wf)
  moreover have "healthyStart (fst (snd (waitForDaemon (pre @ it # rest)))) = clock_now (hd (pre @ [it]))"
    by (simp add: wf s1 pre)
  moreover have "consecutiveSuccesses (fst (snd (waitForDaemon (pre @ it # rest)))) = int (length pre) + 1"
    by (simp add: wf s1 pre)
  moreover have "pings_issued (snd (snd (waitForDaemon (pre @ it # rest)))) = length pre + 1"
    by (simp add: wf l1 pre)
  moreover have "resets (snd (snd (waitForDaemon (pre @ it # rest)))) = 1"
    by (simp add: wf l1)
  moreover have "take 3 (snd (snd (waitForDaemon (pre @ it # rest))))
           = [TimeAfter (5 * Minute), Ping, BackoffReset]"
    using tk by (simp add: wf del: take_append)
  moreover have "length (sleeps (snd (snd (waitForDaemon (pre @ it # rest))))) = length pre"
    by (simp add: wf sleeps_append l1 pre)
  moreover have "hd (sleeps (snd (snd (waitForDaemon (pre @ it # rest))))) = 200 * Millisecond"
    using l1(4,5) by (simp add: wf sleeps_append ForAttempt_init_0)
  ultimately show ?thesis
    using polling by blast
qed

text \<open>
  The theorem of claim C1 on four pings that succeed, seen when the clock reads 0s, 1s,
  3s and 3s plus one nanosecond: after the third the poller is still polling (three
  seconds are not more than three seconds), with the fourth it declares readiness.
\<close>

theorem waitForDaemon_ready_after_stability_window_witness:
  "chosen (succeeds_at 0) = checkErr None
   \<and> chosen (succeeds_at (3 * Second + 1)) = checkErr None
   \<and> clock_since (succeeds_at (3 * Second)) - clock_now (succeeds_at 0) \<le> 3 * Second
   \<and> 3 * Second < clock_since (succeeds_at (3 * Second + 1)) - clock_now (succeeds_at 0)
   \<and> fst (waitForDaemon [succeeds_at 0, succeeds_at Second, succeeds_at (3 * Second)]) = None
   \<and> fst (waitForDaemon [succeeds_at 0, succeeds_at Second, succeeds_at (3 * Second),
                          succeeds_at (3 * Second + 1)]) = Some None
   \<and> pings_issued (snd (snd (waitForDaemon [succeeds_at 0, succeeds_at Second,
         succeeds_at (3 * Second), succeeds_at (3 * Second + 1)]))) = 4
   \<and> resets (snd (snd (waitForDaemon [succeeds_at 0, succeeds_at Second,
         succeeds_at (3 * Second), succeeds_at (3 * Second + 1)]))) = 1
   \<and> hd (sleeps (snd (snd (waitForDaemon [succeeds_at 0, succeeds_at Second,
         succeeds_at (3 * Second), succeeds_at (3 * Second + 1)])))) = 200 * Millisecond"
proof -
  let ?pre = "[succeeds_at 0, succeeds_at Second, succeeds_at (3 * Second)]"
  let ?it = "succeeds_at (3 * Second + 1)"
  have h1: "\<forall>i\<in>set (?pre @ [?it]). chosen i = checkErr None"
    by (simp add: succeeds_at_def)
  have h2: "\<forall>i\<in>set ?pre. clock_since i - clock_now (hd (?pre @ [?it])) \<le> 3 * Second"
    by (simp add: succeeds_at_def Second_def Millisecond_def)
  have h3: "3 * Second < clock_since ?it - clock_now (hd (?pre @ [?it]))"
    by (simp add: succeeds_at_def)
  note T = waitForDaemon_ready_after_stability_window [OF h1 h2 h3, of "[]"]
  have "fst (waitForDaemon (take 3 ?pre)) = None" using T by blast
  then have "fst (waitForDaemon ?pre) = None" by simp
  then show ?thesis
    using T h1 h2 h3 by simp
qed

lemma waitForDaemon_append_polling:
  assumes "fst (waitForDaemon pre) = None"
  shows "waitForDaemon (pre @ its) =
     (case OUTER its (fst (snd (waitForDaemon pre))) of
        (r, s, l) \<Rightarrow> (r, s, snd (snd (waitForDaemon pre)) @ l))"
proof -
  obtain s1 l1 where run: "OUTER pre waitForDaemon_init = (None, s1, l1)"
    using assms by (cases "OUTER pre waitForDaemon_init") (auto simp: waitForDaemon_fst)
  show ?thesis
    by (simp add: waitForDaemon_def OUTER_append run split_beta)
qed


lemma loop_body_starts_with_Ping: "hd (snd (snd (loop_body it s))) = Ping"
  by (simp add: loop_body_def Let_def split_beta split: select_case.splits option.splits)

lemma loop_body_log_nonempty: "snd (snd (loop_body it s)) \<noteq> []"
  by (simp add: loop_body_def Let_def split_beta split: select_case.splits option.splits)


lemma OUTER_starts_with_Ping:
  "take 1 (snd (snd (OUTER (it # its) s))) = [Ping]"
proof -
  obtain f s1 l1 where lb: "loop_body it s = (f, s1, l1)"
    by (cases "loop_body it s")
  have "l1 \<noteq> []" "hd l1 = Ping"
    using loop_body_log_nonempty [of it s] loop_body_starts_with_Ping [of it s] lb by simp_all
  then obtain l2 where "l1 = Ping # l2" by (cases l1) auto
  then show ?thesis using lb by (cases f) (simp_all add: split_beta)
qed

text \<open>
  Claim C2. Let the poller be still polling after the turns \<open>pre\<close> (whatever they
  were, so whatever the number of consecutive successes is), and let the next turn read
  a ping that failed with \<open>err\<close>. If \<open>err\<close> is an authorization failure, the function
  returns \<open>err\<close> at once: the ping that failed is the last action, there is no sleep,
  and the variables are unchanged. Every other error is retried: the counter of
  consecutive successes is set to 0, the poller sleeps for the backoff duration, is
  still polling, and the next turn starts with a ping.
\<close>

theorem waitForDaemon_unauthorized_is_terminal:
  assumes polling: "fst (waitForDaemon pre) = None"
    and failed: "chosen it = checkErr (Some err)"
  shows "(isUnauthorized err \<longrightarrow>
            waitForDaemon (pre @ it # rest) =
              (Some (Some err), fst (snd (waitForDaemon pre)), snd (snd (waitForDaemon pre)) @ [Ping]))
       \<and> (\<not> isUnauthorized err \<longrightarrow>
            fst (waitForDaemon (pre @ [it])) = None
          \<and> consecutiveSuccesses (fst (snd (waitForDaemon (pre @ [it])))) = 0
          \<and> (\<exists>dur. snd (snd (waitForDaemon (pre @ [it]))) =
                snd (snd (waitForDaemon pre)) @
                [Ping,
                 Debug ''Remote builder unavailable, retrying in %s (err: %v)'' [ADur dur, AErr err],
                 Sleep dur])
          \<and> (\<forall>nxt. take (length (snd (snd (waitForDaemon (pre @ [it])))) + 1)
                       (snd (snd (waitForDaemon (pre @ it # nxt # rest))))
                    = snd (snd (waitForDaemon (pre @ [it]))) @ [Ping]))"
proof (intro conjI impI)
  assume "isUnauthorized err"
  then show "waitForDaemon (pre @ it # rest) =
              (Some (Some err), fst (snd (waitForDaemon pre)), snd (snd (waitForDaemon pre)) @ [Ping])"
    using failed by (simp add: waitForDaemon_append_polling [OF polling] loop_body_unauthorized)
next
  assume retry: "\<not> isUnauthorized err"
  let ?s = "fst (snd (waitForDaemon pre))"
  let ?d = "ForAttempt (b ?s) (attempt (b ?s)) (rnd it)"
  let ?l = "[Ping, Debug ''Remote builder unavailable, retrying in %s (err: %v)'' [ADur ?d, AErr err],
             Sleep ?d]"
  let ?s' = "?s\<lparr>consecutiveSuccesses := 0, b := (b ?s)\<lparr>attempt := attempt (b ?s) + 1\<rparr>\<rparr>"
  have lb: "loop_body it ?s = (Next, ?s', ?l)"
    using failed retry by (rule loop_body_retry)
  have one: "waitForDaemon (pre @ [it]) = (None, ?s', snd (snd (waitForDaemon pre)) @ ?l)"
    by (simp add: waitForDaemon_append_polling [OF polling] lb)
  show "fst (waitForDaemon (pre @ [it])) = None" by (simp add: one)
  show "consecutiveSuccesses (fst (snd (waitForDaemon (pre @ [it])))) = 0" by (simp add: one)
  show "\<exists>dur. snd (snd (waitForDaemon (pre @ [it]))) =
                snd (snd (waitForDaemon pre)) @
                [Ping,
                 Debug ''Remote builder unavailable, retrying in %s (err: %v)'' [ADur dur, AErr err],
                 Sleep dur]"
    by (simp add: one)
  show "\<forall>nxt. take (length (snd (snd (waitForDaemon (pre @ [it])))) + 1)
                       (snd (snd (waitForDaemon (pre @ it # nxt # rest))))
                    = snd (snd (waitForDaemon (pre @ [it]))) @ [Ping]"
  proof
    fix nxt
    have "waitForDaemon ((pre @ [it]) @ nxt # rest) =
       (case OUTER (nxt # rest) ?s' of
          (r, s, l) \<Rightarrow> (r, s, snd (snd (waitForDaemon (pre @ [it]))) @ l))"
      using waitForDaemon_append_polling [of "pre @ [it]" "nxt # rest"] one by simp
    then have "snd (snd (waitForDaemon (pre @ it # nxt # rest))) =
        snd (snd (waitForDaemon (pre @ [it]))) @ snd (snd (OUTER (nxt # rest) ?s'))"
      by (simp add: split_beta)
    then show "take (length (snd (snd (waitForDaemon (pre @ [it])))) + 1)
                       (snd (snd (waitForDaemon (pre @ it # nxt # rest))))
                    = snd (snd (waitForDaemon (pre @ [it]))) @ [Ping]"
      using OUTER_starts_with_Ping [of nxt rest ?s'] by simp
  qed
qed

text \<open>
  The theorem of claim C2 after two pings that succeeded: a third ping that fails with
  the sentinel wrapped in a message ends the function with that error, and one that
  fails with another error is retried.
\<close>

theorem waitForDaemon_unauthorized_is_terminal_witness:
  "fst (waitForDaemon [succeeds_at 0, succeeds_at Second]) = None
   \<and> isUnauthorized (Wrap unauthorizedError ''ping'')
   \<and> \<not> isUnauthorized (Err ''connection refused'')
   \<and> waitForDaemon ([succeeds_at 0, succeeds_at Second]
          @ fails_with (Wrap unauthorizedError ''ping'') (1 / 2) # [succeeds_at (2 * Second)]) =
        (Some (Some (Wrap unauthorizedError ''ping'')),
         fst (snd (waitForDaemon [succeeds_at 0, succeeds_at Second])),
         snd (snd (waitForDaemon [succeeds_at 0, succeeds_at Second])) @ [Ping])
   \<and> fst (waitForDaemon ([succeeds_at 0, succeeds_at Second]
          @ [fails_with (Err ''connection refused'') (1 / 2)])) = None
   \<and> consecutiveSuccesses (fst (snd (waitForDaemon ([succeeds_at 0, succeeds_at Second]
          @ [fails_with (Err ''connection refused'') (1 / 2)])))) = 0"
proof -
  let ?pre = "[succeeds_at 0, succeeds_at Second]"
  have polling: "fst (waitForDaemon ?pre) = None"
    by (simp add: waitForDaemon_def waitForDaemon_init_def succeeds_at_def loop_body_def
        Duration_def Reset_def ForAttempt_def Let_def Millisecond_def Second_def maxInt64_def
        to_Duration_def)
  have u: "isUnauthorized (Wrap unauthorizedError ''ping'')"
    and r: "\<not> isUnauthorized (Err ''connection refused'')"
    by (simp_all add: isUnauthorized_def)
  have c1: "chosen (fails_with (Wrap unauthorizedError ''ping'') (1 / 2))
      = checkErr (Some (Wrap unauthorizedError ''ping''))"
    and c2: "chosen (fails_with (Err ''connection refused'') (1 / 2))
      = checkErr (Some (Err ''connection refused''))"
    by (simp_all add: fails_with_def)
  show ?thesis
    using waitForDaemon_unauthorized_is_terminal [OF polling c1, of "[succeeds_at (2 * Second)]"]
      waitForDaemon_unauthorized_is_terminal [OF polling c2, of "[]"] polling u r
    by blast
qed


lemma ForAttempt_init_eq:
  "ForAttempt (b waitForDaemon_init) n r =
     (let durf = r * (200000000 * (6 / 5) ^ n - 200000000) + 200000000
      in if maxInt64 < durf then 2000000000
         else if to_Duration durf < 200000000 then 200000000
         else if 2000000000 < to_Duration durf then 2000000000
         else to_Duration durf)"
  by (simp add: ForAttempt_def waitForDaemon_init_def Millisecond_def Second_def Let_def)

lemma nominal_duration_eq:
  "nominal_duration n =
     (let durf = 200000000 * (6 / 5) ^ n
      in if maxInt64 < durf then 2000000000
         else if to_Duration durf < 200000000 then 200000000
         else if 2000000000 < to_Duration durf then 2000000000
         else to_Duration durf)"
  by (simp add: nominal_duration_def ForAttempt_def waitForDaemon_init_def Millisecond_def
      Second_def Let_def)


lemma power_6_5_ge_1: "(1::rat) \<le> (6 / 5) ^ n"
  by (rule one_le_power) simp

lemma power_6_5_mono: "j \<le> k \<Longrightarrow> ((6 / 5) ^ j :: rat) \<le> (6 / 5) ^ k"
  by (rule power_increasing) simp_all

lemma to_Duration_mono: "0 \<le> x \<Longrightarrow> x \<le> y \<Longrightarrow> to_Duration x \<le> to_Duration y"
  by (simp add: to_Duration_def floor_mono)

lemma ForAttempt_init_lower: "200 * Millisecond \<le> ForAttempt (b waitForDaemon_init) n r"
  by (simp add: ForAttempt_init_eq Let_def Millisecond_def)

lemma nominal_duration_upper: "nominal_duration n \<le> 2 * Second"
  by (simp add: nominal_duration_eq Let_def Millisecond_def Second_def)

lemma ForAttempt_init_le_nominal:
  assumes "0 \<le> r" "r < 1"
  shows "ForAttempt (b waitForDaemon_init) n r \<le> nominal_duration n"
proof -
  define durn :: rat where "durn = 200000000 * (6 / 5) ^ n"
  define durj :: rat where "durj = r * (durn - 200000000) + 200000000"
  have n_ge: "200000000 \<le> durn"
    using power_6_5_ge_1 [of n] by (simp add: durn_def)
  have "r * (durn - 200000000) \<le> 1 * (durn - 200000000)"
    using assms n_ge by (intro mult_right_mono) simp_all
  then have j_le: "durj \<le> durn" by (simp add: durj_def)
  have "0 \<le> r * (durn - 200000000)" using assms n_ge by simp
  then have j_ge: "200000000 \<le> durj" by (simp add: durj_def)
  have mono: "to_Duration durj \<le> to_Duration durn"
    using j_ge j_le by (intro to_Duration_mono) simp_all
  have F: "ForAttempt (b waitForDaemon_init) n r =
     (if maxInt64 < durj then 2000000000
         else if to_Duration durj < 200000000 then 200000000
         else if 2000000000 < to_Duration durj then 2000000000
         else to_Duration durj)"
    by (simp add: ForAttempt_init_eq durj_def durn_def Let_def)
  have N: "nominal_duration n =
     (if maxInt64 < durn then 2000000000
         else if to_Duration durn < 200000000 then 200000000
         else if 2000000000 < to_Duration durn then 2000000000
         else to_Duration durn)"
    by (simp add: nominal_duration_eq durn_def Let_def)
  show ?thesis
    unfolding F N using mono j_le by auto
qed

lemma nominal_duration_mono:
  assumes "j \<le> k"
  shows "nominal_duration j \<le> nominal_duration k"
proof -
  define dj :: rat where "dj = 200000000 * (6 / 5) ^ j"
  define dk :: rat where "dk = 200000000 * (6 / 5) ^ k"
  have le: "dj \<le> dk" using power_6_5_mono [OF assms] by (simp add: dj_def dk_def)
  have ge: "0 \<le> dj" by (simp add: dj_def)
  have mono: "to_Duration dj \<le> to_Duration dk"
    using ge le by (rule to_Duration_mono)
  have J: "nominal_duration j =
     (if maxInt64 < dj then 2000000000
         else if to_Duration dj < 200000000 then 200000000
         else if 2000000000 < to_Duration dj then 2000000000
         else to_Duration dj)"
    by (simp add: nominal_duration_eq dj_def Let_def)
  have K: "nominal_duration k =
     (if maxInt64 < dk then 2000000000
         else if to_Duration dk < 200000000 then 200000000
         else if 2000000000 < to_Duration dk then 2000000000
         else to_Duration dk)"
    by (simp add: nominal_duration_eq dk_def Let_def)
  show ?thesis
    unfolding J K using mono le by auto
qed

lemma nominal_duration_0: "nominal_duration 0 = 200 * Millisecond"
  by (simp add: nominal_duration_eq Let_def Millisecond_def maxInt64_def to_Duration_def)
















lemma failing_prefix_run:
  assumes "\<forall>i\<in>set fails. \<exists>err. chosen i = checkErr (Some err) \<and> \<not> isUnauthorized err"
    and "consecutiveSuccesses s = 0"
  shows "\<exists>l. OUTER fails s = (None, s\<lparr>b := (b s)\<lparr>attempt := attempt (b s) + length fails\<rparr>\<rparr>, l)
           \<and> sleeps l = map (\<lambda>k. ForAttempt (b s) (attempt (b s) + k) (rnd (fails ! k)))
                            [0..<length fails]"
  using assms(1)
proof (induction fails rule: rev_induct)
  case Nil
  then show ?case by simp
next
  case (snoc x fails)
  let ?s1 = "s\<lparr>b := (b s)\<lparr>attempt := attempt (b s) + length fails\<rparr>\<rparr>"
  obtain l where run: "OUTER fails s = (None, ?s1, l)"
    and sl: "sleeps l = map (\<lambda>k. ForAttempt (b s) (attempt (b s) + k) (rnd (fails ! k)))
                            [0..<length fails]"
    using snoc by auto
  obtain err where x: "chosen x = checkErr (Some err)" "\<not> isUnauthorized err"
    using snoc.prems by auto
  have lb: "loop_body x ?s1 =
     (Next,
      ?s1\<lparr>consecutiveSuccesses := 0, b := (b ?s1)\<lparr>attempt := attempt (b ?s1) + 1\<rparr>\<rparr>,
      [Ping,
       Debug ''Remote builder unavailable, retrying in %s (err: %v)''
         [ADur (ForAttempt (b ?s1) (attempt (b ?s1)) (rnd x)), AErr err],
       Sleep (ForAttempt (b ?s1) (attempt (b ?s1)) (rnd x))])"
    using x by (rule loop_body_retry)
  have st: "?s1\<lparr>consecutiveSuccesses := 0, b := (b ?s1)\<lparr>attempt := attempt (b ?s1) + 1\<rparr>\<rparr>
      = s\<lparr>b := (b s)\<lparr>attempt := attempt (b s) + length (fails @ [x])\<rparr>\<rparr>"
    using assms(2) by simp
  have m: "map (\<lambda>k. ForAttempt (b s) (attempt (b s) + k) (rnd ((fails @ [x]) ! k))) [0..<length fails]
      = map (\<lambda>k. ForAttempt (b s) (attempt (b s) + k) (rnd (fails ! k))) [0..<length fails]"
    by (simp add: nth_append)
  show ?case
    using st m by (simp add: OUTER_append run lb sleeps_append sl del: One_nat_def)
qed


lemma init_attempt [simp]: "attempt (b waitForDaemon_init) = 0"
  by (simp add: waitForDaemon_init_def)

text \<open>
  Claim C7, as amended. Take a run of the poller, from its start, in which every turn
  reads a ping that failed with an error that is not an authorization failure, and in
  which the random draws are in [0, 1). After every number of these turns the poller is
  still polling and \<^verbatim>\<open>consecutiveSuccesses\<close> is 0. There is one wait a turn; the wait
  of turn \<open>k\<close> (counted from 0) is at least the minimum of 200ms and at most the
  duration of attempt \<open>k\<close> without jitter. Those durations are non-decreasing in \<open>k\<close>,
  start at 200ms, and are capped at 2s, which attempt 13 reaches.
\<close>

theorem failing_prefix_counter_and_backoff:
  assumes fails: "\<forall>i\<in>set fails. \<exists>err. chosen i = checkErr (Some err) \<and> \<not> isUnauthorized err"
    and draws: "\<forall>i\<in>set fails. 0 \<le> rnd i \<and> rnd i < 1"
  shows "(\<forall>n. fst (waitForDaemon (take n fails)) = None
              \<and> consecutiveSuccesses (fst (snd (waitForDaemon (take n fails)))) = 0)
       \<and> length (sleeps (snd (snd (waitForDaemon fails)))) = length fails
       \<and> (\<forall>k<length fails.
             200 * Millisecond \<le> sleeps (snd (snd (waitForDaemon fails))) ! k
           \<and> sleeps (snd (snd (waitForDaemon fails))) ! k \<le> nominal_duration k)
       \<and> (\<forall>j k. j \<le> k \<longrightarrow> nominal_duration j \<le> nominal_duration k)
       \<and> (\<forall>k. nominal_duration k \<le> 2 * Second)
       \<and> nominal_duration 0 = 200 * Millisecond
       \<and> nominal_duration 13 = 2 * Second"
proof (intro conjI allI impI)
  fix n
  have "\<forall>i\<in>set (take n fails). \<exists>err. chosen i = checkErr (Some err) \<and> \<not> isUnauthorized err"
    using fails by (auto dest: in_set_takeD)
  then obtain l where
    "OUTER (take n fails) waitForDaemon_init =
       (None,
        waitForDaemon_init\<lparr>b := (b waitForDaemon_init)
           \<lparr>attempt := attempt (b waitForDaemon_init) + length (take n fails)\<rparr>\<rparr>, l)"
    using failing_prefix_run [of "take n fails" waitForDaemon_init] by auto
  then show "fst (waitForDaemon (take n fails)) = None"
    and "consecutiveSuccesses (fst (snd (waitForDaemon (take n fails)))) = 0"
    by (simp_all add: waitForDaemon_def)
next
  obtain l where run: "OUTER fails waitForDaemon_init =
       (None,
        waitForDaemon_init\<lparr>b := (b waitForDaemon_init)
           \<lparr>attempt := attempt (b waitForDaemon_init) + length fails\<rparr>\<rparr>, l)"
    and sl: "sleeps l = map (\<lambda>k. ForAttempt (b waitForDaemon_init) (attempt (b waitForDaemon_init) + k)
                              (rnd (fails ! k))) [0..<length fails]"
    using failing_prefix_run [OF fails, of waitForDaemon_init] by auto
  have S: "sleeps (snd (snd (waitForDaemon fails))) =
      map (\<lambda>k. ForAttempt (b waitForDaemon_init) k (rnd (fails ! k))) [0..<length fails]"
    using sl by (simp add: waitForDaemon_def run)
  show "length (sleeps (snd (snd (waitForDaemon fails)))) = length fails"
    by (simp add: S)
  fix k assume k: "k < length fails"
  then have d: "0 \<le> rnd (fails ! k)" "rnd (fails ! k) < 1"
    using draws by simp_all
  have nth: "sleeps (snd (snd (waitForDaemon fails))) ! k
      = ForAttempt (b waitForDaemon_init) k (rnd (fails ! k))"
    using k by (simp add: S)
  show "200 * Millisecond \<le> sleeps (snd (snd (waitForDaemon fails))) ! k"
    unfolding nth by (rule ForAttempt_init_lower)
  show "sleeps (snd (snd (waitForDaemon fails))) ! k \<le> nominal_duration k"
    unfolding nth using d by (rule ForAttempt_init_le_nominal)
next
  fix j k :: nat assume "j \<le> k"
  then show "nominal_duration j \<le> nominal_duration k" by (rule nominal_duration_mono)
next
  fix k show "nominal_duration k \<le> 2 * Second" by (rule nominal_duration_upper)
next
  show "nominal_duration 0 = 200 * Millisecond" by (rule nominal_duration_0)
next
  show "nominal_duration 13 = 2 * Second"
    by (simp add: nominal_duration_eq Let_def Millisecond_def Second_def maxInt64_def
        to_Duration_def power_divide)
qed

text \<open>
  Claim C7 as the spec states it fails: with the jitter on, the waits of a failing prefix
  need not be non-decreasing. Three failures with the draws 1/2, 3/4 and 1/4 wait
  200ms, 230ms and 222ms, all below the cap.
\<close>

theorem failing_prefix_backoff_counterexample:
  "sleeps (snd (snd (waitForDaemon
            [fails_with (Err ''connection refused'') (1 / 2),
             fails_with (Err ''connection refused'') (3 / 4),
             fails_with (Err ''connection refused'') (1 / 4)])))
       = [200000000, 230000000, 222000000]
   \<and> \<not> sorted (sleeps (snd (snd (waitForDaemon
            [fails_with (Err ''connection refused'') (1 / 2),
             fails_with (Err ''connection refused'') (3 / 4),
             fails_with (Err ''connection refused'') (1 / 4)]))))"
  by (simp add: waitForDaemon_def waitForDaemon_init_def fails_with_def loop_body_def
      isRetyableError_def isUnauthorized_def Duration_def ForAttempt_def Let_def
      Millisecond_def Second_def maxInt64_def to_Duration_def)

text \<open>The theorem of claim C7 on two failures with the draws 1/2 and 3/4.\<close>

theorem failing_prefix_counter_and_backoff_witness:
  "chosen (fails_with (Err ''connection refused'') (3 / 4)) = checkErr (Some (Err ''connection refused''))
   \<and> \<not> isUnauthorized (Err ''connection refused'')
   \<and> fst (waitForDaemon [fails_with (Err ''connection refused'') (1 / 2),
             fails_with (Err ''connection refused'') (3 / 4)]) = None
   \<and> consecutiveSuccesses (fst (snd (waitForDaemon [fails_with (Err ''connection refused'') (1 / 2),
             fails_with (Err ''connection refused'') (3 / 4)]))) = 0
   \<and> 200 * Millisecond \<le> sleeps (snd (snd (waitForDaemon
            [fails_with (Err ''connection refused'') (1 / 2),
             fails_with (Err ''connection refused'') (3 / 4)]))) ! 1
   \<and> sleeps (snd (snd (waitForDaemon
            [fails_with (Err ''connection refused'') (1 / 2),
             fails_with (Err ''connection refused'') (3 / 4)]))) ! 1 \<le> nominal_duration 1
   \<and> nominal_duration 1 \<le> nominal_duration 2"
proof -
  let ?fails = "[fails_with (Err ''connection refused'') (1 / 2),
             fails_with (Err ''connection refused'') (3 / 4)]"
  have h1: "\<forall>i\<in>set ?fails. \<exists>err. chosen i = checkErr (Some err) \<and> \<not> isUnauthorized err"
    by (simp add: fails_with_def isUnauthorized_def)
  have h2: "\<forall>i\<in>set ?fails. 0 \<le> rnd i \<and> rnd i < 1"
    by (simp add: fails_with_def)
  note T = failing_prefix_counter_and_backoff [OF h1 h2]
  have "fst (waitForDaemon (take 2 ?fails)) = None
      \<and> consecutiveSuccesses (fst (snd (waitForDaemon (take 2 ?fails)))) = 0"
    using T by blast
  moreover have "200 * Millisecond \<le> sleeps (snd (snd (waitForDaemon ?fails))) ! 1
      \<and> sleeps (snd (snd (waitForDaemon ?fails))) ! 1 \<le> nominal_duration 1"
    using T by simp
  moreover have "nominal_duration 1 \<le> nominal_duration 2"
    using T by simp
  ultimately show ?thesis
    by (simp add: fails_with_def isUnauthorized_def)
qed

section \<open>Properties of the endpoint resolver\<close>

lemma LastIndexByte_None: "c \<notin> set s \<Longrightarrow> LastIndexByte s c = None"
  by (induction s) auto

lemma LastIndexByte_last: "c \<notin> set p \<Longrightarrow> LastIndexByte (h @ c # p) c = Some (length h)"
  by (induction h) (simp_all add: LastIndexByte_None)

lemma splitHostPort_no_port:
  assumes "CHR '':'' \<notin> set h" "\<not> HasPrefix h ''[''"
  shows "splitHostPort h = (h, '''')"
  using assms by (simp add: splitHostPort_def LastIndexByte_None)

lemma digits_no_colon: "list_all (\<lambda>d. d \<in> set ''0123456789'') p \<Longrightarrow> CHR '':'' \<notin> set p"
  by (induction p) auto

lemma splitHostPort_host_port:
  assumes "list_all (\<lambda>d. d \<in> set ''0123456789'') p" "\<not> HasPrefix h ''[''"
  shows "splitHostPort (h @ '':'' @ p) = (h, p)"
proof -
  have "LastIndexByte (h @ CHR '':'' # p) CHR '':'' = Some (length h)"
    using assms(1) by (intro LastIndexByte_last digits_no_colon)
  moreover have "validOptionalPort (CHR '':'' # p)"
    using assms(1) by (simp add: validOptionalPort_def)
  ultimately show ?thesis
    using assms(2) by (simp add: splitHostPort_def)
qed

lemma JoinHostPort_plain: "CHR '':'' \<notin> set h \<Longrightarrow> JoinHostPort h p = h @ '':'' @ p"
  by (simp add: JoinHostPort_def)

text \<open>
  Claim C6. Let the override variable be empty. If provisioning fails, the resolver
  returns an error that carries the failure's message; if the raw URL does not parse, it
  returns the parser's error, wrapped; neither is retried. Otherwise the endpoint is
  \<^verbatim>\<open>tcp://\<close> followed by the parsed URL's host name and port joined by
  \<^verbatim>\<open>JoinHostPort\<close>, with port 10000 when the URL has none, and the app name is the
  provisioned app's: a URL whose \<^verbatim>\<open>Host\<close> is a plain host \<open>h\<close> gives
  \<^verbatim>\<open>tcp://h:10000\<close>, and one whose \<^verbatim>\<open>Host\<close> is \<open>h:p\<close> with digits \<open>p\<close> gives
  \<^verbatim>\<open>tcp://h:p\<close>. The parser is any function: the statement holds for whatever
  \<^verbatim>\<open>url.Parse\<close> returns.
\<close>

theorem remoteBuilderURL_resolves_endpoint:
  assumes no_override: "Getenv w ''FLY_REMOTE_BUILDER_HOST'' = ''''"
  shows "(\<forall>err. EnsureRemoteBuilder w appName = Inl err \<longrightarrow>
            remoteBuilderURL w appName =
              (Inl (Err (''could not create remote builder: '' @ Error err)),
               [CallEnsureRemoteBuilder appName]))
       \<and> (\<forall>rawURL app err. EnsureRemoteBuilder w appName = Inr (rawURL, app) \<longrightarrow>
            url_Parse w rawURL = Inl err \<longrightarrow>
            remoteBuilderURL w appName =
              (Inl (Wrap err ''error parsing remote builder url''),
               [CallEnsureRemoteBuilder appName]))
       \<and> (\<forall>rawURL app u. EnsureRemoteBuilder w appName = Inr (rawURL, app) \<longrightarrow>
            url_Parse w rawURL = Inr u \<longrightarrow>
              remoteBuilderURL w appName =
                (Inr (''tcp://'' @ JoinHostPort (Hostname u)
                                     (if Port u = '''' then ''10000'' else Port u),
                      Name app),
                 [CallEnsureRemoteBuilder appName])
            \<and> (CHR '':'' \<notin> set (Host u) \<longrightarrow> \<not> HasPrefix (Host u) ''['' \<longrightarrow>
                 fst (remoteBuilderURL w appName) =
                   Inr (''tcp://'' @ Host u @ '':10000'', Name app))
            \<and> (\<forall>h p. Host u = h @ '':'' @ p \<longrightarrow> CHR '':'' \<notin> set h \<longrightarrow>
                 \<not> HasPrefix h ''['' \<longrightarrow> p \<noteq> '''' \<longrightarrow>
                 list_all (\<lambda>d. d \<in> set ''0123456789'') p \<longrightarrow>
                 fst (remoteBuilderURL w appName) = Inr (''tcp://'' @ h @ '':'' @ p, Name app)))"
proof (intro conjI allI impI)
  fix err assume "EnsureRemoteBuilder w appName = Inl err"
  then show "remoteBuilderURL w appName =
              (Inl (Err (''could not create remote builder: '' @ Error err)),
               [CallEnsureRemoteBuilder appName])"
    using no_override by (simp add: remoteBuilderURL_def)
next
  fix rawURL app err
  assume "EnsureRemoteBuilder w appName = Inr (rawURL, app)" "url_Parse w rawURL = Inl err"
  then show "remoteBuilderURL w appName =
              (Inl (Wrap err ''error parsing remote builder url''),
               [CallEnsureRemoteBuilder appName])"
    using no_override by (simp add: remoteBuilderURL_def)
next
  fix rawURL app u
  assume ok: "EnsureRemoteBuilder w appName = Inr (rawURL, app)" "url_Parse w rawURL = Inr u"
  show R: "remoteBuilderURL w appName =
                (Inr (''tcp://'' @ JoinHostPort (Hostname u)
                                     (if Port u = '''' then ''10000'' else Port u),
                      Name app),
                 [CallEnsureRemoteBuilder appName])"
    using no_override ok by (simp add: remoteBuilderURL_def Let_def)
  {
    assume h: "CHR '':'' \<notin> set (Host u)" "\<not> HasPrefix (Host u) ''[''"
    have "splitHostPort (Host u) = (Host u, '''')"
      using h by (rule splitHostPort_no_port)
    then show "fst (remoteBuilderURL w appName) =
                   Inr (''tcp://'' @ Host u @ '':10000'', Name app)"
      using h(1) by (simp add: R Hostname_def Port_def JoinHostPort_plain)
  }
  {
    fix h p
    assume hp: "Host u = h @ '':'' @ p" "CHR '':'' \<notin> set h" "\<not> HasPrefix h ''[''"
      "p \<noteq> ''''" "list_all (\<lambda>d. d \<in> set ''0123456789'') p"
    have "splitHostPort (Host u) = (h, p)"
      unfolding hp(1) using hp(5,3) by (rule splitHostPort_host_port)
    then show "fst (remoteBuilderURL w appName) = Inr (''tcp://'' @ h @ '':'' @ p, Name app)"
      using hp(2,4) by (simp add: R Hostname_def Port_def JoinHostPort_plain)
  }
qed

text \<open>
  The theorem of claim C6 at the two URLs of the spec, \<^verbatim>\<open>https://example.com\<close> and
  \<^verbatim>\<open>https://example.com:9999\<close>, and in a world where provisioning fails.
\<close>

theorem remoteBuilderURL_resolves_endpoint_witness:
  "Getenv (example_world '''' ''https://example.com'' []) ''FLY_REMOTE_BUILDER_HOST'' = ''''
   \<and> EnsureRemoteBuilder (example_world '''' ''https://example.com'' []) ''app''
       = Inr (''https://example.com'', \<lparr>Name = ''fly-builder-app''\<rparr>)
   \<and> url_Parse (example_world '''' ''https://example.com'' []) ''https://example.com''
       = Inr \<lparr>Scheme = ''https'', Host = ''example.com'', Path = ''''\<rparr>
   \<and> fst (remoteBuilderURL (example_world '''' ''https://example.com'' []) ''app'')
       = Inr (''tcp://example.com:10000'', ''fly-builder-app'')
   \<and> url_Parse (example_world '''' ''https://example.com:9999'' []) ''https://example.com:9999''
       = Inr \<lparr>Scheme = ''https'', Host = ''example.com:9999'', Path = ''''\<rparr>
   \<and> fst (remoteBuilderURL (example_world '''' ''https://example.com:9999'' []) ''app'')
       = Inr (''tcp://example.com:9999'', ''fly-builder-app'')
   \<and> EnsureRemoteBuilder failing_world ''app'' = Inl (Err ''not authorized to create builders'')
   \<and> remoteBuilderURL failing_world ''app''
       = (Inl (Err ''could not create remote builder: not authorized to create builders''),
          [CallEnsureRemoteBuilder ''app''])"
proof -
  let ?w1 = "example_world '''' ''https://example.com'' []"
  let ?w2 = "example_world '''' ''https://example.com:9999'' []"
  have e1: "Getenv ?w1 ''FLY_REMOTE_BUILDER_HOST'' = ''''"
    and e2: "Getenv ?w2 ''FLY_REMOTE_BUILDER_HOST'' = ''''"
    and e3: "Getenv failing_world ''FLY_REMOTE_BUILDER_HOST'' = ''''"
    by (simp_all add: example_world_def failing_world_def)
  have p1: "EnsureRemoteBuilder ?w1 ''app'' = Inr (''https://example.com'', \<lparr>Name = ''fly-builder-app''\<rparr>)"
    and p2: "EnsureRemoteBuilder ?w2 ''app'' = Inr (''https://example.com:9999'', \<lparr>Name = ''fly-builder-app''\<rparr>)"
    and p3: "EnsureRemoteBuilder failing_world ''app'' = Inl (Err ''not authorized to create builders'')"
    by (simp_all add: example_world_def failing_world_def)
  have u1: "url_Parse ?w1 ''https://example.com''
       = Inr \<lparr>Scheme = ''https'', Host = ''example.com'', Path = ''''\<rparr>"
    and u2: "url_Parse ?w2 ''https://example.com:9999''
       = Inr \<lparr>Scheme = ''https'', Host = ''example.com:9999'', Path = ''''\<rparr>"
    by (simp_all add: example_world_def simple_Parse_def)
  note T1 = remoteBuilderURL_resolves_endpoint [OF e1, of "''app''"]
  note T2 = remoteBuilderURL_resolves_endpoint [OF e2, of "''app''"]
  note T3 = remoteBuilderURL_resolves_endpoint [OF e3, of "''app''"]
  let ?u1 = "\<lparr>Scheme = ''https'', Host = ''example.com'', Path = ''''\<rparr>"
  let ?u2 = "\<lparr>Scheme = ''https'', Host = ''example.com:9999'', Path = ''''\<rparr>"
  have n1: "CHR '':'' \<notin> set (Host ?u1)" "\<not> HasPrefix (Host ?u1) ''[''"
    by (simp_all add: HasPrefix_def)
  have r1: "fst (remoteBuilderURL ?w1 ''app'')
       = Inr (''tcp://'' @ Host ?u1 @ '':10000'', Name \<lparr>Name = ''fly-builder-app''\<rparr>)"
    using T1 p1 u1 n1 by blast
  have n2: "Host ?u2 = ''example.com'' @ '':'' @ ''9999''" "CHR '':'' \<notin> set ''example.com''"
    "\<not> HasPrefix ''example.com'' ''[''" "''9999'' \<noteq> ''''"
    "list_all (\<lambda>d. d \<in> set ''0123456789'') ''9999''"
    by (simp_all add: HasPrefix_def)
  have r2: "fst (remoteBuilderURL ?w2 ''app'')
       = Inr (''tcp://'' @ ''example.com'' @ '':'' @ ''9999'', Name \<lparr>Name = ''fly-builder-app''\<rparr>)"
    using T2 p2 u2 n2 by blast
  have r3: "remoteBuilderURL failing_world ''app''
       = (Inl (Err (''could not create remote builder: '' @ Error (Err ''not authorized to create builders''))),
          [CallEnsureRemoteBuilder ''app''])"
    using T3 p3 by blast
  show ?thesis
    using e1 p1 u1 r1 u2 r2 p3 r3 by simp
qed

section \<open>Properties of the remote client and the factory\<close>

lemma loop_body_no_calls: "\<forall>a\<in>set (snd (snd (loop_body it s))). \<not> calls_collaborator a"
  by (simp add: loop_body_def Let_def split_beta split: select_case.splits option.splits)

lemma OUTER_no_calls: "\<forall>a\<in>set (snd (snd (OUTER its s))). \<not> calls_collaborator a"
proof (induction its arbitrary: s)
  case Nil
  then show ?case by simp
next
  case (Cons it its)
  obtain f s1 l1 where lb: "loop_body it s = (f, s1, l1)"
    by (cases "loop_body it s")
  have l1: "\<forall>a\<in>set l1. \<not> calls_collaborator a"
    using loop_body_no_calls [of it s] lb by simp
  show ?case
    using l1 lb Cons.IH [of s1] by (cases f) (auto simp: split_beta)
qed

lemma waitForDaemon_no_calls:
  "\<forall>a\<in>set (snd (snd (waitForDaemon its))). \<not> calls_collaborator a"
  using OUTER_no_calls [of its waitForDaemon_init] by (simp add: waitForDaemon_log)

text \<open>
  Claim C8. Let the override variable \<^verbatim>\<open>FLY_REMOTE_BUILDER_HOST\<close> be non-empty. The
  resolver returns its value as it is, with the empty app name, and does nothing else.
  With the empty app name the function literal goes straight to the readiness poller.
  So \<^verbatim>\<open>newRemoteDockerClient\<close>, once the client is created, logs the host and runs the
  poller, and its result is the poller's; whatever happens, neither the provisioning
  collaborator nor the wait for the running instance is called.
\<close>

theorem override_skips_provisioning_and_instance_wait:
  assumes override: "Getenv w ''FLY_REMOTE_BUILDER_HOST'' \<noteq> ''''"
  shows "remoteBuilderURL w appName = (Inr (Getenv w ''FLY_REMOTE_BUILDER_HOST'', ''''), [])
       \<and> waitForBuilder w '''' =
           (fst (waitForDaemon (turns w)), snd (snd (waitForDaemon (turns w))))
       \<and> (\<forall>c. NewClientWithOpts w (Getenv w ''FLY_REMOTE_BUILDER_HOST'') = Inr c \<longrightarrow>
             newRemoteDockerClient w appName =
               (case fst (waitForDaemon (turns w)) of
                  None \<Rightarrow> None
                | Some None \<Rightarrow>
                    Some (Inr (RemoteClient c (Getenv w ''FLY_REMOTE_BUILDER_HOST'')
                                 (Getenv w ''FLY_REMOTE_BUILDER_NO_TLS'' \<noteq> ''1'')))
                | Some (Some err) \<Rightarrow> Some (Inl err),
                Debug ''Remote Docker builder host: %s'' [AStr (Getenv w ''FLY_REMOTE_BUILDER_HOST'')]
                  # snd (snd (waitForDaemon (turns w)))))
       \<and> (\<forall>a\<in>set (snd (newRemoteDockerClient w appName)). \<not> calls_collaborator a)"
proof (intro conjI allI impI)
  show url: "remoteBuilderURL w appName = (Inr (Getenv w ''FLY_REMOTE_BUILDER_HOST'', ''''), [])"
    using override by (simp add: remoteBuilderURL_def Let_def)
  show wb: "waitForBuilder w '''' =
           (fst (waitForDaemon (turns w)), snd (snd (waitForDaemon (turns w))))"
    by (simp add: waitForBuilder_def split_beta)
  {
    fix c assume "NewClientWithOpts w (Getenv w ''FLY_REMOTE_BUILDER_HOST'') = Inr c"
    then show "newRemoteDockerClient w appName =
               (case fst (waitForDaemon (turns w)) of
                  None \<Rightarrow> None
                | Some None \<Rightarrow>
                    Some (Inr (RemoteClient c (Getenv w ''FLY_REMOTE_BUILDER_HOST'')
                                 (Getenv w ''FLY_REMOTE_BUILDER_NO_TLS'' \<noteq> ''1'')))
                | Some (Some err) \<Rightarrow> Some (Inl err),
                Debug ''Remote Docker builder host: %s'' [AStr (Getenv w ''FLY_REMOTE_BUILDER_HOST'')]
                  # snd (snd (waitForDaemon (turns w))))"
      by (simp add: newRemoteDockerClient_def url wb Let_def split: option.splits)
  }
  show "\<forall>a\<in>set (snd (newRemoteDockerClient w appName)). \<not> calls_collaborator a"
    using waitForDaemon_no_calls [of "turns w"]
    by (auto simp: newRemoteDockerClient_def url wb Let_def split: sum.splits option.splits)
qed

text \<open>
  The theorem of claim C8 in a world with the override set to \<^verbatim>\<open>tcp://10.0.0.1:2375\<close>
  and two pings that succeed, four seconds apart.
\<close>

theorem override_skips_provisioning_and_instance_wait_witness:
  "Getenv (example_world ''tcp://10.0.0.1:2375'' ''https://example.com''
             [succeeds_at 0, succeeds_at (4 * Second)]) ''FLY_REMOTE_BUILDER_HOST'' \<noteq> ''''
   \<and> remoteBuilderURL (example_world ''tcp://10.0.0.1:2375'' ''https://example.com''
             [succeeds_at 0, succeeds_at (4 * Second)]) ''app''
       = (Inr (''tcp://10.0.0.1:2375'', ''''), [])
   \<and> newRemoteDockerClient (example_world ''tcp://10.0.0.1:2375'' ''https://example.com''
             [succeeds_at 0, succeeds_at (4 * Second)]) ''app''
       = (Some (Inr (RemoteClient 7 ''tcp://10.0.0.1:2375'' True)),
          [Debug ''Remote Docker builder host: %s'' [AStr ''tcp://10.0.0.1:2375''],
           TimeAfter (5 * Minute), Ping, BackoffReset,
           Debug ''Remote builder available, but pinging again in %s to be sure''
             [ADur (200 * Millisecond)],
           Sleep (200 * Millisecond), Ping])"
proof -
  let ?w = "example_world ''tcp://10.0.0.1:2375'' ''https://example.com''
             [succeeds_at 0, succeeds_at (4 * Second)]"
  have o: "Getenv ?w ''FLY_REMOTE_BUILDER_HOST'' \<noteq> ''''"
    and v: "Getenv ?w ''FLY_REMOTE_BUILDER_HOST'' = ''tcp://10.0.0.1:2375''"
    and t: "(Getenv ?w ''FLY_REMOTE_BUILDER_NO_TLS'' \<noteq> ''1'') = True"
    and c: "NewClientWithOpts ?w (Getenv ?w ''FLY_REMOTE_BUILDER_HOST'') = Inr 7"
    and ts: "turns ?w = [succeeds_at 0, succeeds_at (4 * Second)]"
    by (simp_all add: example_world_def)
  have p: "waitForDaemon [succeeds_at 0, succeeds_at (4 * Second)] =
      (Some None,
       \<lparr>consecutiveSuccesses = 2, healthyStart = 0,
          b = \<lparr>attempt = 1, Factor = 6 / 5, Jitter = True, Min_b = 200 * Millisecond,
               Max_b = 2 * Second\<rparr>\<rparr>,
       [TimeAfter (5 * Minute), Ping, BackoffReset,
        Debug ''Remote builder available, but pinging again in %s to be sure''
          [ADur (200 * Millisecond)],
        Sleep (200 * Millisecond), Ping])"
    by (simp add: waitForDaemon_def waitForDaemon_init_def succeeds_at_def loop_body_def
        Duration_def Reset_def ForAttempt_def Let_def Millisecond_def Second_def maxInt64_def
        to_Duration_def)
  note T = override_skips_provisioning_and_instance_wait [OF o, of "''app''"]
  have "newRemoteDockerClient ?w ''app'' =
               (case fst (waitForDaemon (turns ?w)) of
                  None \<Rightarrow> None
                | Some None \<Rightarrow>
                    Some (Inr (RemoteClient 7 (Getenv ?w ''FLY_REMOTE_BUILDER_HOST'')
                                 (Getenv ?w ''FLY_REMOTE_BUILDER_NO_TLS'' \<noteq> ''1'')))
                | Some (Some err) \<Rightarrow> Some (Inl err),
                Debug ''Remote Docker builder host: %s'' [AStr (Getenv ?w ''FLY_REMOTE_BUILDER_HOST'')]
                  # snd (snd (waitForDaemon (turns ?w))))"
    using T c by blast
  then have n: "newRemoteDockerClient ?w ''app''
       = (Some (Inr (RemoteClient 7 ''tcp://10.0.0.1:2375'' True)),
          [Debug ''Remote Docker builder host: %s'' [AStr ''tcp://10.0.0.1:2375''],
           TimeAfter (5 * Minute), Ping, BackoffReset,
           Debug ''Remote builder available, but pinging again in %s to be sure''
             [ADur (200 * Millisecond)],
           Sleep (200 * Millisecond), Ping])"
    unfolding v t ts p by simp
  have "remoteBuilderURL ?w ''app'' = (Inr (Getenv ?w ''FLY_REMOTE_BUILDER_HOST'', ''''), [])"
    using T by blast
  then have u: "remoteBuilderURL ?w ''app'' = (Inr (''tcp://10.0.0.1:2375'', ''''), [])"
    unfolding v .
  show ?thesis using o u n by blast
qed

lemma mode_constants_distinct:
  "DockerDaemonTypeLocal \<noteq> DockerDaemonTypeRemote"
  "DockerDaemonTypeNone \<noteq> DockerDaemonTypeRemote"
  by (simp_all add: DockerDaemonTypeLocal_def DockerDaemonTypeRemote_def DockerDaemonTypeNone_def)

lemma remote_factory_closure:
  assumes "IsRemote (mode (fst (newDockerClientFactory daemonType w appName)))"
  shows "buildFn (fst (newDockerClientFactory daemonType w appName)) = BuildRemote appName None"
  using assms mode_constants_distinct
  by (auto simp: newDockerClientFactory_def IsRemote_def Let_def split_beta
      split: if_splits sum.splits option.splits)

text \<open>
  Claim C5, as amended. Take a factory that \<^verbatim>\<open>newDockerClientFactory\<close> built with the
  remote mode. A call of its \<^verbatim>\<open>buildFn\<close> runs \<^verbatim>\<open>newRemoteDockerClient\<close>. When a call
  returns a client, the next call returns the same client and does nothing else,
  whatever the world is by then. When a call returns an error, nothing is cached: the
  factory is as before, and the next call runs \<^verbatim>\<open>newRemoteDockerClient\<close> again, with
  its result and its actions.
\<close>

theorem remote_factory_memoizes_success:
  assumes f: "f = fst (newDockerClientFactory daemonType w0 appName)"
    and remote: "IsRemote (mode f)"
  shows "fst (call_buildFn w1 f) = fst (newRemoteDockerClient w1 appName)
       \<and> snd (snd (call_buildFn w1 f)) = snd (newRemoteDockerClient w1 appName)
       \<and> (\<forall>c f1 l1. call_buildFn w1 f = (Some (Inr c), f1, l1) \<longrightarrow>
             call_buildFn w2 f1 = (Some (Inr c), f1, []))
       \<and> (\<forall>err f1 l1. call_buildFn w1 f = (Some (Inl err), f1, l1) \<longrightarrow>
             f1 = f
           \<and> fst (call_buildFn w2 f1) = fst (newRemoteDockerClient w2 appName)
           \<and> snd (snd (call_buildFn w2 f1)) = snd (newRemoteDockerClient w2 appName))"
proof -
  have cl: "buildFn f = BuildRemote appName None"
    using remote unfolding f by (rule remote_factory_closure)
  have first: "\<And>w. fst (call_buildFn w f) = fst (newRemoteDockerClient w appName)
      \<and> snd (snd (call_buildFn w f)) = snd (newRemoteDockerClient w appName)"
    by (simp add: call_buildFn_def cl split: prod.splits option.splits sum.splits)
  have hit: "\<And>c f1 l1. call_buildFn w1 f = (Some (Inr c), f1, l1) \<Longrightarrow>
      call_buildFn w2 f1 = (Some (Inr c), f1, [])"
    by (auto simp: call_buildFn_def cl split: prod.splits option.splits sum.splits)
  have miss: "\<And>err f1 l1. call_buildFn w1 f = (Some (Inl err), f1, l1) \<Longrightarrow> f1 = f"
    by (auto simp: call_buildFn_def cl split: prod.splits option.splits sum.splits)
  show ?thesis
    using first hit miss by blast
qed

text \<open>
  Claim C5 as the spec states it fails for a first call that fails. The second call
  calls the provisioning collaborator again; and in a world where the builder answers by
  then, it returns a client, not the first call's error.
\<close>

theorem failed_build_is_not_memoized_counterexample:
  "IsRemote (mode (fst (newDockerClientFactory (NewDockerDaemonType False True) failing_world ''app'')))
   \<and> call_buildFn failing_world
        (fst (newDockerClientFactory (NewDockerDaemonType False True) failing_world ''app''))
      = (Some (Inl (Err ''could not create remote builder: not authorized to create builders'')),
         fst (newDockerClientFactory (NewDockerDaemonType False True) failing_world ''app''),
         [CallEnsureRemoteBuilder ''app''])
   \<and> snd (snd (call_buildFn failing_world
        (fst (snd (call_buildFn failing_world
           (fst (newDockerClientFactory (NewDockerDaemonType False True) failing_world ''app'')))))))
      = [CallEnsureRemoteBuilder ''app'']
   \<and> fst (call_buildFn
        (example_world '''' ''https://example.com'' [succeeds_at 0, succeeds_at (4 * Second)])
        (fst (snd (call_buildFn failing_world
           (fst (newDockerClientFactory (NewDockerDaemonType False True) failing_world ''app''))))))
      = Some (Inr (RemoteClient 7 ''tcp://example.com:10000'' True))"
  by (simp add: newDockerClientFactory_def NewDockerDaemonType_values AllowLocal_def AllowRemote_def
      DockerDaemonType_values IsRemote_def call_buildFn_def newRemoteDockerClient_def
      remoteBuilderURL_def failing_world_def example_world_def simple_Parse_def
      Hostname_def Port_def splitHostPort_def validOptionalPort_def HasPrefix_def HasSuffix_def
      JoinHostPort_def waitForBuilder_def
      waitForDaemon_def waitForDaemon_init_def succeeds_at_def loop_body_def
      Duration_def Reset_def ForAttempt_def Let_def Millisecond_def Second_def Minute_def
      maxInt64_def to_Duration_def)

text \<open>
  The theorem of claim C5 on a factory built for the remote daemon only: the first call,
  in a world where the builder answers, returns the client at address 7; the second
  call, in a world where provisioning fails, returns the same client and does nothing.
\<close>

theorem remote_factory_memoizes_success_witness:
  "IsRemote (mode (fst (newDockerClientFactory (NewDockerDaemonType False True) failing_world ''app'')))
   \<and> call_buildFn
        (example_world '''' ''https://example.com'' [succeeds_at 0, succeeds_at (4 * Second)])
        (fst (newDockerClientFactory (NewDockerDaemonType False True) failing_world ''app''))
      = (Some (Inr (RemoteClient 7 ''tcp://example.com:10000'' True)),
         \<lparr>mode = DockerDaemonTypeRemote,
            buildFn = BuildRemote ''app'' (Some (RemoteClient 7 ''tcp://example.com:10000'' True))\<rparr>,
         [CallEnsureRemoteBuilder ''app'',
          Debug ''Remote Docker builder host: %s'' [AStr ''tcp://example.com:10000''],
          ErrOut (''Waiting for remote builder fly-builder-app...'' @ [CHR 0x0A]),
          CallWaitForRunningVM ''fly-builder-app'' (5 * Minute),
          TimeAfter (5 * Minute), Ping, BackoffReset,
          Debug ''Remote builder available, but pinging again in %s to be sure''
            [ADur (200 * Millisecond)],
          Sleep (200 * Millisecond), Ping])
   \<and> call_buildFn failing_world
        \<lparr>mode = DockerDaemonTypeRemote,
           buildFn = BuildRemote ''app'' (Some (RemoteClient 7 ''tcp://example.com:10000'' True))\<rparr>
      = (Some (Inr (RemoteClient 7 ''tcp://example.com:10000'' True)),
         \<lparr>mode = DockerDaemonTypeRemote,
            buildFn = BuildRemote ''app'' (Some (RemoteClient 7 ''tcp://example.com:10000'' True))\<rparr>,
         [])"
proof -
  let ?f = "fst (newDockerClientFactory (NewDockerDaemonType False True) failing_world ''app'')"
  let ?w = "example_world '''' ''https://example.com'' [succeeds_at 0, succeeds_at (4 * Second)]"
  let ?f1 = "\<lparr>mode = DockerDaemonTypeRemote,
            buildFn = BuildRemote ''app'' (Some (RemoteClient 7 ''tcp://example.com:10000'' True))\<rparr>"
  have remote: "IsRemote (mode ?f)"
    by (simp add: newDockerClientFactory_def NewDockerDaemonType_values AllowLocal_def
        AllowRemote_def DockerDaemonType_values IsRemote_def)
  have first: "call_buildFn ?w ?f =
      (Some (Inr (RemoteClient 7 ''tcp://example.com:10000'' True)), ?f1,
         [CallEnsureRemoteBuilder ''app'',
          Debug ''Remote Docker builder host: %s'' [AStr ''tcp://example.com:10000''],
          ErrOut (''Waiting for remote builder fly-builder-app...'' @ [CHR 0x0A]),
          CallWaitForRunningVM ''fly-builder-app'' (5 * Minute),
          TimeAfter (5 * Minute), Ping, BackoffReset,
          Debug ''Remote builder available, but pinging again in %s to be sure''
            [ADur (200 * Millisecond)],
          Sleep (200 * Millisecond), Ping])"
    by (simp add: newDockerClientFactory_def NewDockerDaemonType_values AllowLocal_def
      AllowRemote_def DockerDaemonType_values call_buildFn_def newRemoteDockerClient_def
      remoteBuilderURL_def failing_world_def example_world_def simple_Parse_def
      Hostname_def Port_def splitHostPort_def validOptionalPort_def HasPrefix_def HasSuffix_def
      JoinHostPort_def waitForBuilder_def
      waitForDaemon_def waitForDaemon_init_def succeeds_at_def loop_body_def
      Duration_def Reset_def ForAttempt_def Let_def Millisecond_def Second_def Minute_def
      maxInt64_def to_Duration_def)
  note T = remote_factory_memoizes_success [OF refl remote, of ?w failing_world]
  have "call_buildFn failing_world ?f1 =
      (Some (Inr (RemoteClient 7 ''tcp://example.com:10000'' True)), ?f1, [])"
    using T first by blast
  then show ?thesis
    using remote first by blast
qed

end
